theory Spec2Isabelle
  imports Complex_Main "HOL-Library.Sublist"
begin

section \<open>Python values used by the modules\<close>

text \<open>
  Strings are lists of characters. The character classes below are the ASCII part of
  Python's \<^verbatim>\<open>str.isspace\<close>, \<^verbatim>\<open>\w\<close>, \<^verbatim>\<open>\d\<close> and \<^verbatim>\<open>str.lower\<close>; the
  development is about ASCII text.
\<close>

definition newline :: char where
  "newline = CHR 0x0A"

definition dquote :: char where
  "dquote = CHR 0x22"

definition is_space :: "char \<Rightarrow> bool" where
  "is_space c = (c \<in> set [CHR '' '', CHR 0x09, CHR 0x0A, CHR 0x0B, CHR 0x0C, CHR 0x0D,
                            CHR 0x1C, CHR 0x1D, CHR 0x1E, CHR 0x1F])"

definition is_digit :: "char \<Rightarrow> bool" where
  "is_digit c = (c \<in> set ''0123456789'')"

definition is_word :: "char \<Rightarrow> bool" where
  "is_word c =
     (c \<in> set ''abcdefghijklmnopqrstuvwxyzABCDEFGHIJKLMNOPQRSTUVWXYZ0123456789_'')"

definition char_lower :: "char \<Rightarrow> char" where
  "char_lower c =
     (case map_of (zip ''ABCDEFGHIJKLMNOPQRSTUVWXYZ'' ''abcdefghijklmnopqrstuvwxyz'') c of
        None \<Rightarrow> c
      | Some d \<Rightarrow> d)"

text \<open>\<^verbatim>\<open>s.lower()\<close>\<close>

definition py_lower :: "string \<Rightarrow> string" where
  "py_lower s = map char_lower s"

text \<open>\<^verbatim>\<open>s.strip()\<close>\<close>

definition py_strip :: "string \<Rightarrow> string" where
  "py_strip s = rev (dropWhile is_space (rev (dropWhile is_space s)))"

text \<open>\<^verbatim>\<open>s.split(c)\<close> for a one-character separator: empty pieces are kept.\<close>

fun split_on :: "char \<Rightarrow> string \<Rightarrow> string list" where
  "split_on c [] = [[]]"
| "split_on c (x # xs) =
     (if x = c then [] # split_on c xs
      else (case split_on c xs of
              [] \<Rightarrow> [[x]]
            | w # ws \<Rightarrow> (x # w) # ws))"

text \<open>\<^verbatim>\<open>s.split()\<close>: pieces between runs of whitespace, no empty piece.\<close>

fun split_ws_from :: "string \<Rightarrow> string \<Rightarrow> string list" where
  "split_ws_from cur [] = (if cur = [] then [] else [cur])"
| "split_ws_from cur (c # cs) =
     (if is_space c
      then (if cur = [] then split_ws_from [] cs else cur # split_ws_from [] cs)
      else split_ws_from (cur @ [c]) cs)"

definition py_split :: "string \<Rightarrow> string list" where
  "py_split s = split_ws_from [] s"

text \<open>\<^verbatim>\<open>sep.join(parts)\<close>\<close>

fun py_join :: "string \<Rightarrow> string list \<Rightarrow> string" where
  "py_join sep [] = []"
| "py_join sep [p] = p"
| "py_join sep (p # q # ps) = p @ sep @ py_join sep (q # ps)"

text \<open>\<^verbatim>\<open>w in text\<close> on strings: \<open>w\<close> occurs as a contiguous piece of \<open>text\<close>.\<close>

fun py_in :: "string \<Rightarrow> string \<Rightarrow> bool" where
  "py_in w [] = (w = [])"
| "py_in w (c # cs) = (if prefix w (c # cs) then True else py_in w cs)"

text \<open>
  Slices \<^verbatim>\<open>xs[i:]\<close> and \<^verbatim>\<open>xs[:j]\<close> with Python's treatment of a negative bound
  (counted from the end, then clamped).
\<close>

definition py_slice_from :: "int \<Rightarrow> 'a list \<Rightarrow> 'a list" where
  "py_slice_from i xs =
     (let n = int (length xs);
          k = (if i < 0 then max 0 (i + n) else min i n)
      in drop (nat k) xs)"

definition py_slice_to :: "int \<Rightarrow> 'a list \<Rightarrow> 'a list" where
  "py_slice_to j xs =
     (let n = int (length xs);
          k = (if j < 0 then max 0 (j + n) else min j n)
      in take (nat k) xs)"

text \<open>Exceptions are values: the class and the message.\<close>

datatype exc_class =
  ValueError | UnicodeDecodeError | TypeError | RuntimeError | NameError
  | UnboundLocalError | AttributeError | OSError | APIError

datatype exc = Exc exc_class string

fun exc_class_of :: "exc \<Rightarrow> exc_class" where
  "exc_class_of (Exc c m) = c"

fun exc_message :: "exc \<Rightarrow> string" where
  "exc_message (Exc c m) = m"

text \<open>\<^verbatim>\<open>except ValueError\<close> catches the class and its subclass.\<close>

fun is_value_error :: "exc_class \<Rightarrow> bool" where
  "is_value_error ValueError = True"
| "is_value_error UnicodeDecodeError = True"
| "is_value_error c = False"

text \<open>\<^verbatim>\<open>type(e).__name__\<close>\<close>

fun type_name :: "exc_class \<Rightarrow> string" where
  "type_name ValueError = ''ValueError''"
| "type_name UnicodeDecodeError = ''UnicodeDecodeError''"
| "type_name TypeError = ''TypeError''"
| "type_name RuntimeError = ''RuntimeError''"
| "type_name NameError = ''NameError''"
| "type_name UnboundLocalError = ''UnboundLocalError''"
| "type_name AttributeError = ''AttributeError''"
| "type_name OSError = ''OSError''"
| "type_name APIError = ''APIError''"

fun first_match :: "('a \<Rightarrow> 'b option) \<Rightarrow> 'a list \<Rightarrow> 'b option" where
  "first_match f [] = None"
| "first_match f (x # xs) = (case f x of None \<Rightarrow> first_match f xs | Some y \<Rightarrow> Some y)"


section \<open>episode.py: attempts and episodes\<close>

record Attempt =
  short_desc :: string
  error_type :: "string option"
  error_line :: "string option"
  success :: bool

record Episode =
  episode_id :: string
  task :: string
  created_at :: string
  attempts :: "Attempt list"
  final_result :: "string option"
  final_success :: "bool option"
  "notes" :: "string option"

definition add_attempt ::
  "Episode \<Rightarrow> string \<Rightarrow> string option \<Rightarrow> string option \<Rightarrow> bool \<Rightarrow> Episode" where
  "add_attempt ep d et el s =
     ep\<lparr>attempts := attempts ep @
          [\<lparr>short_desc = d, error_type = et, error_line = el, success = s\<rparr>]\<rparr>"

text \<open>
  \<^verbatim>\<open>failed = [a for a in self.attempts if not a.success]; return failed[-limit:]\<close>
\<close>

definition get_failures :: "Episode \<Rightarrow> int \<Rightarrow> Attempt list" where
  "get_failures ep limit =
     py_slice_from (- limit) (filter (\<lambda>a. \<not> success a) (attempts ep))"

text \<open>The last attempt with \<^verbatim>\<open>success\<close> set, scanning from the end.\<close>

definition get_success :: "Episode \<Rightarrow> Attempt option" where
  "get_success ep = List.find success (rev (attempts ep))"

text \<open>\<^verbatim>\<open>x or default\<close> on an optional string: \<^verbatim>\<open>None\<close> and \<^verbatim>\<open>""\<close> are both falsy.\<close>

definition str_or :: "string option \<Rightarrow> string \<Rightarrow> string" where
  "str_or x d = (case x of None \<Rightarrow> d | Some s \<Rightarrow> (if s = [] then d else s))"

record kimi_input =
  kimi_task :: string
  kimi_failures :: "(string \<times> string) list"
  kimi_success :: "(string \<times> string) option"

definition to_kimi_input :: "Episode \<Rightarrow> kimi_input" where
  "to_kimi_input ep =
     \<lparr>kimi_task = task ep,
      kimi_failures =
        map (\<lambda>f. (short_desc f, str_or (error_type f) ''unknown'')) (get_failures ep 5),
      kimi_success =
        (case get_success ep of
           None \<Rightarrow> None
         | Some s \<Rightarrow> Some (short_desc s, str_or (final_result ep) ''completed''))\<rparr>"


section \<open>episode.py: the tracker\<close>

type_synonym tracker = "string \<rightharpoonup> Episode"

definition tracker_get :: "tracker \<Rightarrow> string \<Rightarrow> Episode option" where
  "tracker_get tr eid = tr eid"

text \<open>
  \<^verbatim>\<open>EpisodeTracker.end\<close>: an instance of the dataclass is always truthy, so the branch is
  taken exactly when the id is registered.
\<close>

definition tracker_end ::
  "tracker \<Rightarrow> string \<Rightarrow> string \<Rightarrow> bool \<Rightarrow> string option \<Rightarrow> Episode option \<times> tracker" where
  "tracker_end tr eid res s n =
     (case tr eid of
        None \<Rightarrow> (None, tr)
      | Some ep \<Rightarrow>
          (Some (ep\<lparr>final_result := Some res, final_success := Some s, notes := n\<rparr>),
           tr(eid := None)))"


section \<open>episode.py: extract\_error\_summary\<close>

text \<open>
  \<^verbatim>\<open>re.compile(r"^(\w+Error|^\w+Exception):").match(s)\<close>. Every character the group
  consumes is a word character and the colon after it is not, so the group is the whole
  run of word characters at the start of \<open>s\<close>: the pattern matches when that run ends in
  \<^verbatim>\<open>Error\<close> or \<^verbatim>\<open>Exception\<close> with at least one character before it, and a colon
  follows. The result is \<^verbatim>\<open>group(1)\<close>.
\<close>

definition word_plus_lit :: "string \<Rightarrow> string \<Rightarrow> bool" where
  "word_plus_lit lit w = (length lit < length w \<and> prefix (rev lit) (rev w))"

definition error_pattern_match :: "string \<Rightarrow> string option" where
  "error_pattern_match s =
     (let w = takeWhile is_word s; r = dropWhile is_word s
      in if (word_plus_lit ''Error'' w \<or> word_plus_lit ''Exception'' w) \<and> prefix '':'' r
         then Some w else None)"

text \<open>
  \<^verbatim>\<open>re.compile(r'File "([^"]+)", line (\d+)').search(s)\<close>: the leftmost position where
  the pattern matches. The first group cannot hold a quote and is followed by one, so it
  is the run up to the next quote; the second is the run of digits. The result is
  \<^verbatim>\<open>(group(1), group(2))\<close>.
\<close>

definition strip_prefix :: "string \<Rightarrow> string \<Rightarrow> string option" where
  "strip_prefix p s = (if prefix p s then Some (drop (length p) s) else None)"

definition line_pattern_at :: "string \<Rightarrow> (string \<times> string) option" where
  "line_pattern_at s =
     (case strip_prefix (''File '' @ [dquote]) s of
        None \<Rightarrow> None
      | Some r \<Rightarrow>
          (let p = takeWhile (\<lambda>c. c \<noteq> dquote) r
           in if p = [] then None
              else (case strip_prefix ([dquote] @ '', line '') (dropWhile (\<lambda>c. c \<noteq> dquote) r) of
                      None \<Rightarrow> None
                    | Some r3 \<Rightarrow>
                        (let d = takeWhile is_digit r3
                         in if d = [] then None else Some (p, d)))))"

fun line_pattern_search :: "string \<Rightarrow> (string \<times> string) option" where
  "line_pattern_search [] = line_pattern_at []"
| "line_pattern_search (c # cs) =
     (case line_pattern_at (c # cs) of
        None \<Rightarrow> line_pattern_search cs
      | Some m \<Rightarrow> Some m)"

text \<open>
  The names bound at module level in \<^verbatim>\<open>episode.py\<close>: its imports (\<^verbatim>\<open>re\<close>,
  \<^verbatim>\<open>dataclass\<close>, \<^verbatim>\<open>field\<close>, \<^verbatim>\<open>datetime\<close>, \<^verbatim>\<open>TYPE_CHECKING\<close>) and its own classes
  and function. Reading any other name that is not a builtin raises \<^verbatim>\<open>NameError\<close>.
\<close>

definition episode_globals :: "string list" where
  "episode_globals =
     [''re'', ''dataclass'', ''field'', ''datetime'', ''TYPE_CHECKING'',
      ''Attempt'', ''Episode'', ''EpisodeTracker'', ''extract_error_summary'']"

definition load_global :: "string \<Rightarrow> exc + unit" where
  "load_global nm =
     (if nm \<in> set episode_globals then Inr ()
      else Inl (Exc NameError (''name '' @ [CHR 0x27] @ nm @ [CHR 0x27] @ '' is not defined'')))"

text \<open>\<^verbatim>\<open>pathlib.Path(p).name\<close> on a POSIX path: the last component, if there is one.\<close>

definition path_name :: "string \<Rightarrow> string" where
  "path_name p =
     (case rev (filter (\<lambda>c. c \<noteq> [] \<and> c \<noteq> ''.'') (split_on (CHR ''/'') p)) of
        [] \<Rightarrow> []
      | c # cs \<Rightarrow> c)"

text \<open>
  The function itself. The error type comes from the last ten lines, scanned backward;
  the location from all lines, scanned forward. Formatting the location evaluates the
  name \<^verbatim>\<open>Path\<close> in the module.
\<close>

definition extract_error_summary :: "string \<Rightarrow> exc + (string option \<times> string option)" where
  "extract_error_summary stderr =
     (if stderr = [] then Inr (None, None)
      else
        (let lines = split_on newline (py_strip stderr);
             error_type = first_match (\<lambda>l. error_pattern_match (py_strip l))
                            (rev (py_slice_from (- 10) lines))
         in case first_match line_pattern_search lines of
              None \<Rightarrow> Inr (error_type, None)
            | Some (path, num) \<Rightarrow>
                (case load_global ''Path'' of
                   Inl e \<Rightarrow> Inl e
                 | Inr u \<Rightarrow> Inr (error_type, Some (path_name path @ '':'' @ num)))))"


section \<open>JSON values and dictionaries\<close>

text \<open>
  What \<^verbatim>\<open>json.load\<close> returns and \<^verbatim>\<open>json.dump\<close> accepts. A dictionary is the list
  of its items in insertion order, with distinct keys. Numbers are reals (exact
  arithmetic in place of floating point).
\<close>

datatype json =
  JNull | JBool bool | JNum real | JStr string | JList "json list"
  | JDict "(string \<times> json) list"

type_synonym pydict = "(string \<times> json) list"

text \<open>\<^verbatim>\<open>d.get(k, default)\<close>\<close>

definition dict_get :: "pydict \<Rightarrow> string \<Rightarrow> json \<Rightarrow> json" where
  "dict_get d k dflt = (case map_of d k of None \<Rightarrow> dflt | Some v \<Rightarrow> v)"

text \<open>\<^verbatim>\<open>d[k] = v\<close>\<close>

fun dict_set :: "string \<Rightarrow> json \<Rightarrow> pydict \<Rightarrow> pydict" where
  "dict_set k v [] = [(k, v)]"
| "dict_set k v (p # ps) = (if fst p = k then (k, v) # ps else p # dict_set k v ps)"

text \<open>The truth value of a parsed value in a condition.\<close>

fun truthy :: "json \<Rightarrow> bool" where
  "truthy JNull = False"
| "truthy (JBool b) = b"
| "truthy (JNum x) = (x \<noteq> 0)"
| "truthy (JStr s) = (s \<noteq> [])"
| "truthy (JList xs) = (xs \<noteq> [])"
| "truthy (JDict kvs) = (kvs \<noteq> [])"

text \<open>
  An operand of a string concatenation \<^verbatim>\<open>x + " "\<close>: anything but a string raises
  \<^verbatim>\<open>TypeError\<close>. (The model keeps the class of a \<^verbatim>\<open>TypeError\<close> and shortens its
  message.)
\<close>

fun as_str :: "json \<Rightarrow> exc + string" where
  "as_str (JStr s) = Inr s"
| "as_str v = Inl (Exc TypeError ''can only concatenate str to str'')"

fun all_strs :: "json list \<Rightarrow> string list option" where
  "all_strs [] = Some []"
| "all_strs (JStr s # xs) = (case all_strs xs of None \<Rightarrow> None | Some ss \<Rightarrow> Some (s # ss))"
| "all_strs (v # xs) = None"

text \<open>
  \<^verbatim>\<open>sep.join(x)\<close> on a parsed value: a list must hold strings only, a string is joined
  character by character, a dictionary by its keys, anything else is not iterable.
\<close>

fun join_json :: "string \<Rightarrow> json \<Rightarrow> exc + string" where
  "join_json sep (JList xs) =
     (case all_strs xs of
        None \<Rightarrow> Inl (Exc TypeError ''sequence item: expected str instance'')
      | Some ss \<Rightarrow> Inr (py_join sep ss))"
| "join_json sep (JStr s) = Inr (py_join sep (map (\<lambda>c. [c]) s))"
| "join_json sep (JDict kvs) = Inr (py_join sep (map fst kvs))"
| "join_json sep v = Inl (Exc TypeError ''can only join an iterable'')"

text \<open>A list of numbers as a vector (\<^verbatim>\<open>np.array\<close> of it is one-dimensional).\<close>

fun all_nums :: "json list \<Rightarrow> real list option" where
  "all_nums [] = Some []"
| "all_nums (JNum x # xs) = (case all_nums xs of None \<Rightarrow> None | Some ys \<Rightarrow> Some (x # ys))"
| "all_nums (v # xs) = None"

fun vector_of :: "json \<Rightarrow> real list option" where
  "vector_of (JList xs) = all_nums xs"
| "vector_of v = None"


section \<open>storage.py: embeddings and the surroundings of a call\<close>

text \<open>
  \<^verbatim>\<open>cosine_similarity\<close>, over the reals. \<^verbatim>\<open>np.dot\<close> of two vectors of different
  lengths raises \<^verbatim>\<open>ValueError\<close>.
\<close>

definition dot :: "real list \<Rightarrow> real list \<Rightarrow> real" where
  "dot a b = sum_list (map2 (*) a b)"

definition linalg_norm :: "real list \<Rightarrow> real" where
  "linalg_norm a = sqrt (sum_list (map (\<lambda>x. x * x) a))"

definition cosine_similarity :: "real list \<Rightarrow> real list \<Rightarrow> exc + real" where
  "cosine_similarity a b =
     (if length a = length b
      then Inr (dot a b / (linalg_norm a * linalg_norm b + 1 / 10 ^ 8))
      else Inl (Exc ValueError ''shapes not aligned''))"

text \<open>\<^verbatim>\<open>datetime.now()\<close> and \<^verbatim>\<open>strftime("%Y%m%d_%H%M%S")\<close> (a four-digit year).\<close>

record datetime =
  year :: nat
  month :: nat
  day :: nat
  hour :: nat
  minute :: nat
  second :: nat
  microsecond :: nat

definition digit_char :: "nat \<Rightarrow> char" where
  "digit_char n = ''0123456789'' ! (n mod 10)"

fun dec_digits :: "nat \<Rightarrow> nat \<Rightarrow> string" where
  "dec_digits 0 n = []"
| "dec_digits (Suc w) n = dec_digits w (n div 10) @ [digit_char n]"

definition strftime_YmdHMS :: "datetime \<Rightarrow> string" where
  "strftime_YmdHMS d =
     dec_digits 4 (year d) @ dec_digits 2 (month d) @ dec_digits 2 (day d) @ ''_'' @
     dec_digits 2 (hour d) @ dec_digits 2 (minute d) @ dec_digits 2 (second d)"

datatype llm_outcome =
  Call_raises exc | Empty_content | Not_json string | Parsed json

text \<open>
  What a call finds outside the process: the credential in the environment, the clock,
  the modification time the file system gives to a file written now, the error that
  opening a file for writing raises (if any), and the outcome of the remote calls.
  \<^verbatim>\<open>embed\<close> is the outcome of \<^verbatim>\<open>EmbeddingGenerator.embed\<close> (memoised by
  \<^verbatim>\<open>lru_cache\<close>: a hit returns the vector of an earlier successful call),
  \<^verbatim>\<open>embed_search_text\<close> that of the uncached query call, \<^verbatim>\<open>llm\<close> that of the chat
  call and the parsing of its answer. Two library behaviours are taken as given:
  \<^verbatim>\<open>np_other q v\<close> is what \<^verbatim>\<open>cosine_similarity(q, np.array(v))\<close> does for a stored
  embedding \<open>v\<close> that is not a list of numbers, and \<^verbatim>\<open>py_str v\<close> is \<^verbatim>\<open>str(v)\<close> for a
  parsed value that is not a string.
\<close>

record world =
  api_key :: "string option"
  now :: datetime
  file_mtime :: nat
  disk_write :: "exc option"
  embed :: "string \<Rightarrow> exc + real list"
  embed_search_text :: "string \<Rightarrow> exc + real list"
  llm :: "kimi_input \<Rightarrow> llm_outcome"
  np_other :: "real list \<Rightarrow> json \<Rightarrow> exc + real"
  py_str :: "json \<Rightarrow> string"

text \<open>\<^verbatim>\<open>if not api_key\<close>: an unset variable and an empty one are both falsy.\<close>

definition truthy_key :: "string option \<Rightarrow> bool" where
  "truthy_key k = (case k of None \<Rightarrow> False | Some s \<Rightarrow> s \<noteq> [])"


section \<open>storage.py: the experience store\<close>

text \<open>
  A file of the directory: opening it raises \<^verbatim>\<open>IOError\<close>, its bytes are not UTF-8,
  its text is not JSON, or it holds a JSON value. A directory entry is the name, the
  modification time (\<open>None\<close> when \<^verbatim>\<open>stat()\<close> raises) and the content; the directory
  is the list of its entries in the order the operating system lists them.
\<close>

datatype stored_file = Unreadable | Not_utf8 | Malformed | Holds json

type_synonym dir_entry = "string \<times> nat option \<times> stored_file"

record storage =
  files :: "dir_entry list"
  embedding_gen :: bool

text \<open>\<^verbatim>\<open>open(filepath, "w")\<close> and the dump: a file of that name is replaced.\<close>

fun write_file ::
  "string \<Rightarrow> nat option \<times> stored_file \<Rightarrow> dir_entry list \<Rightarrow> dir_entry list" where
  "write_file name ent [] = [(name, ent)]"
| "write_file name ent (f # fs) =
     (if fst f = name then (name, ent) # fs else f # write_file name ent fs)"

text \<open>\<^verbatim>\<open>storage_dir.glob("exp_*.json")\<close>\<close>

definition glob_match :: "string \<Rightarrow> bool" where
  "glob_match name =
     (9 \<le> length name \<and> prefix ''exp_'' name \<and> prefix (rev ''.json'') (rev name))"

definition glob :: "dir_entry list \<Rightarrow> dir_entry list" where
  "glob fs = filter (\<lambda>f. glob_match (fst f)) fs"

text \<open>
  \<^verbatim>\<open>_get_embedding_gen\<close>: the generator is built on first use and kept; building it
  raises \<^verbatim>\<open>ValueError\<close> without a credential, which is caught here.
\<close>

definition get_embedding_gen :: "world \<Rightarrow> storage \<Rightarrow> bool \<times> storage" where
  "get_embedding_gen w st =
     (if embedding_gen st then (True, st)
      else if truthy_key (api_key w) then (True, st\<lparr>embedding_gen := True\<rparr>)
      else (False, st))"

text \<open>
  The text \<^verbatim>\<open>save\<close> embeds:
  \<^verbatim>\<open>" ".join([task, pattern, insight, " ".join(keywords)])\<close> with the \<^verbatim>\<open>get\<close> defaults.
  The inner join is evaluated while the list is built, the outer one after.
\<close>

definition search_text :: "pydict \<Rightarrow> exc + string" where
  "search_text d =
     (case join_json '' '' (dict_get d ''keywords'' (JList [])) of
        Inl x \<Rightarrow> Inl x
      | Inr k \<Rightarrow>
          join_json '' ''
            (JList [dict_get d ''task'' (JStr []), dict_get d ''pattern'' (JStr []),
                    dict_get d ''insight'' (JStr []), JStr k]))"

definition save_filename :: "datetime \<Rightarrow> string" where
  "save_filename d = ''exp_'' @ strftime_YmdHMS d @ ''.json''"

text \<open>
  The branch \<^verbatim>\<open>if embed_gen is not None\<close> of \<^verbatim>\<open>save\<close>: the search text is built
  outside the \<^verbatim>\<open>try\<close>, the call of \<^verbatim>\<open>embed\<close> inside it.
\<close>

definition attach_embedding :: "world \<Rightarrow> pydict \<Rightarrow> exc + pydict" where
  "attach_embedding w experience =
     (case search_text experience of
        Inl x \<Rightarrow> Inl x
      | Inr text \<Rightarrow>
          Inr (dict_set ''embedding''
                 (case embed w text of
                    Inl x \<Rightarrow> JNull
                  | Inr v \<Rightarrow> JList (map JNum v))
                 experience))"

definition save :: "world \<Rightarrow> storage \<Rightarrow> pydict \<Rightarrow> (exc + string) \<times> storage" where
  "save w st experience =
     (let filename = save_filename (now w);
          (gen, st1) = get_embedding_gen w st
      in case (if gen then attach_embedding w experience else Inr experience) of
           Inl x \<Rightarrow> (Inl x, st1)
         | Inr experience' \<Rightarrow>
             (case disk_write w of
                Some x \<Rightarrow> (Inl x, st1)
              | None \<Rightarrow>
                  (Inr filename,
                   st1\<lparr>files :=
                         write_file filename (Some (file_mtime w), Holds (JDict experience'))
                           (files st1)\<rparr>)))"

text \<open>
  The text of a stored record that the query words are looked up in:
  \<^verbatim>\<open>(task + " " + pattern + " " + insight + " " + " ".join(keywords)).lower()\<close>,
  evaluated from left to right.
\<close>

definition keyword_text :: "pydict \<Rightarrow> exc + string" where
  "keyword_text d =
     (case as_str (dict_get d ''task'' (JStr [])) of
        Inl x \<Rightarrow> Inl x
      | Inr t \<Rightarrow>
          (case as_str (dict_get d ''pattern'' (JStr [])) of
             Inl x \<Rightarrow> Inl x
           | Inr p \<Rightarrow>
               (case as_str (dict_get d ''insight'' (JStr [])) of
                  Inl x \<Rightarrow> Inl x
                | Inr i \<Rightarrow>
                    (case join_json '' '' (dict_get d ''keywords'' (JList [])) of
                       Inl x \<Rightarrow> Inl x
                     | Inr k \<Rightarrow>
                         Inr (py_lower (t @ '' '' @ p @ '' '' @ i @ '' '' @ k))))))"

text \<open>The loop over the query words, with the running score.\<close>

fun keyword_loop :: "real \<Rightarrow> string \<Rightarrow> string list \<Rightarrow> real \<Rightarrow> real" where
  "keyword_loop boost text [] score = score"
| "keyword_loop boost text (word # ws) score =
     keyword_loop boost text ws
       (if py_in word text
        then (if py_in ('' '' @ word @ '' '') ('' '' @ text @ '' '')
              then score + boost + boost else score + boost)
        else score)"

text \<open>
  The semantic part of the score of one record. \<open>qe\<close> is the query embedding when
  \<^verbatim>\<open>has_embeddings\<close> is set and \<open>None\<close> otherwise; the record's embedding is used when
  \<^verbatim>\<open>exp.get("embedding")\<close> is truthy.
\<close>

definition semantic_score :: "world \<Rightarrow> real list option \<Rightarrow> pydict \<Rightarrow> exc + real" where
  "semantic_score w qe e =
     (case qe of
        None \<Rightarrow> Inr 0
      | Some q \<Rightarrow>
          (let v = dict_get e ''embedding'' JNull
           in if truthy v
              then (case (case vector_of v of
                            None \<Rightarrow> np_other w q v
                          | Some vec \<Rightarrow> cosine_similarity q vec) of
                      Inl x \<Rightarrow> Inl x
                    | Inr sim \<Rightarrow> Inr (max 0 (sim * 10)))
              else Inr 0))"

text \<open>The score of one record: the semantic part, then the keyword loop.\<close>

definition score_record ::
  "world \<Rightarrow> real list option \<Rightarrow> string list \<Rightarrow> pydict \<Rightarrow> exc + real" where
  "score_record w qe query_words e =
     (case semantic_score w qe e of
        Inl x \<Rightarrow> Inl x
      | Inr score \<Rightarrow>
          (case keyword_text e of
             Inl x \<Rightarrow> Inl x
           | Inr text \<Rightarrow>
               Inr (keyword_loop (if qe = None then 1 else 1 / 2) text query_words score)))"

text \<open>
  The loop over the files. Only \<^verbatim>\<open>json.JSONDecodeError\<close> and \<^verbatim>\<open>IOError\<close> are caught:
  a file that is not UTF-8 raises \<^verbatim>\<open>UnicodeDecodeError\<close>, a JSON value that is not an
  object has no \<^verbatim>\<open>get\<close>, and an exception from scoring a record ends the search.
\<close>

fun scan ::
  "world \<Rightarrow> real list option \<Rightarrow> string list \<Rightarrow> dir_entry list \<Rightarrow> (real \<times> pydict) list \<Rightarrow>
   exc + (real \<times> pydict) list" where
  "scan w qe ws [] results = Inr results"
| "scan w qe ws (f # fs) results =
     (case snd (snd f) of
        Unreadable \<Rightarrow> scan w qe ws fs results
      | Malformed \<Rightarrow> scan w qe ws fs results
      | Not_utf8 \<Rightarrow> Inl (Exc UnicodeDecodeError ''invalid start byte'')
      | Holds v \<Rightarrow>
          (case v of
             JDict e \<Rightarrow>
               (case score_record w qe ws e of
                  Inl x \<Rightarrow> Inl x
                | Inr s \<Rightarrow> scan w qe ws fs (if 0 < s then results @ [(s, e)] else results))
           | _ \<Rightarrow> Inl (Exc AttributeError ''object has no attribute get'')))"

text \<open>The query embedding, when semantic search is asked for and available.\<close>

definition query_embedding ::
  "world \<Rightarrow> storage \<Rightarrow> string \<Rightarrow> bool \<Rightarrow> real list option \<times> storage" where
  "query_embedding w st query semantic =
     (if semantic
      then (let (gen, st1) = get_embedding_gen w st
            in if gen
               then (case embed_search_text w query of
                       Inl x \<Rightarrow> (None, st1)
                     | Inr v \<Rightarrow> (Some v, st1))
               else (None, st1))
      else (None, st))"

text \<open>\<^verbatim>\<open>set(query.lower().split())\<close>, as the list of its distinct words.\<close>

definition query_words :: "string \<Rightarrow> string list" where
  "query_words query = remdups (py_split (py_lower query))"

text \<open>The list \<^verbatim>\<open>results\<close> of \<^verbatim>\<open>search\<close> before it is sorted.\<close>

definition scored ::
  "world \<Rightarrow> storage \<Rightarrow> string \<Rightarrow> bool \<Rightarrow> exc + (real \<times> pydict) list" where
  "scored w st query semantic =
     (let (qe, st1) = query_embedding w st query semantic
      in scan w qe (query_words query) (glob (files st1)) [])"

text \<open>
  \<^verbatim>\<open>results.sort(key=lambda x: x[0], reverse=True)\<close> is stable: records of equal score
  keep their order.
\<close>

definition search ::
  "world \<Rightarrow> storage \<Rightarrow> string \<Rightarrow> int \<Rightarrow> bool \<Rightarrow> (exc + pydict list) \<times> storage" where
  "search w st query limit semantic =
     (case scored w st query semantic of
        Inl x \<Rightarrow> (Inl x, snd (query_embedding w st query semantic))
      | Inr results \<Rightarrow>
          (Inr (map snd (py_slice_to limit (sort_key (\<lambda>p. - fst p) results))),
           snd (query_embedding w st query semantic)))"

text \<open>
  \<^verbatim>\<open>get_recent\<close>. The sort reads the modification time of every file before anything is
  loaded, outside the \<^verbatim>\<open>try\<close>; the loop then loads the first \<^verbatim>\<open>limit\<close> files and
  catches \<^verbatim>\<open>json.JSONDecodeError\<close> and \<^verbatim>\<open>IOError\<close> only. What is loaded is returned as
  it is, object or not.
\<close>

fun stat_all :: "dir_entry list \<Rightarrow> exc + (nat \<times> dir_entry) list" where
  "stat_all [] = Inr []"
| "stat_all (f # fs) =
     (case fst (snd f) of
        None \<Rightarrow> Inl (Exc OSError ''No such file or directory'')
      | Some m \<Rightarrow>
          (case stat_all fs of
             Inl x \<Rightarrow> Inl x
           | Inr ms \<Rightarrow> Inr ((m, f) # ms)))"

fun load_all :: "dir_entry list \<Rightarrow> json list \<Rightarrow> exc + json list" where
  "load_all [] results = Inr results"
| "load_all (f # fs) results =
     (case snd (snd f) of
        Unreadable \<Rightarrow> load_all fs results
      | Malformed \<Rightarrow> load_all fs results
      | Not_utf8 \<Rightarrow> Inl (Exc UnicodeDecodeError ''invalid start byte'')
      | Holds v \<Rightarrow> load_all fs (results @ [v]))"

definition get_recent :: "storage \<Rightarrow> int \<Rightarrow> exc + json list" where
  "get_recent st limit =
     (case stat_all (glob (files st)) of
        Inl x \<Rightarrow> Inl x
      | Inr keyed \<Rightarrow>
          load_all (py_slice_to limit (map snd (sort_key (\<lambda>p. - int (fst p)) keyed))) [])"


section \<open>summarizer.py: extract\_experience\<close>

text \<open>
  The prompt is a function of the episode summary, so the remote call and the parsing of
  its answer are taken as the outcome \<^verbatim>\<open>llm\<close> of the call on that summary. The
  function imports \<^verbatim>\<open>json\<close> inside its \<^verbatim>\<open>try\<close> block, after the remote call and the
  check for an empty answer: \<^verbatim>\<open>json\<close> is a local name, and when the call raises or the
  answer is empty, evaluating \<^verbatim>\<open>except json.JSONDecodeError\<close> itself raises
  \<^verbatim>\<open>UnboundLocalError\<close>.
\<close>

definition unbound_json :: exc where
  "unbound_json =
     Exc UnboundLocalError
       (''cannot access local variable '' @ [CHR 0x27] @ ''json'' @ [CHR 0x27] @
        '' where it is not associated with a value'')"

definition extract_experience :: "world \<Rightarrow> kimi_input \<Rightarrow> exc + json" where
  "extract_experience w episode_data =
     (if truthy_key (api_key w)
      then (case llm w episode_data of
              Call_raises x \<Rightarrow> Inl unbound_json
            | Empty_content \<Rightarrow> Inl unbound_json
            | Not_json d \<Rightarrow>
                Inl (Exc RuntimeError (''Failed to parse API response as JSON: '' @ d))
            | Parsed v \<Rightarrow> Inr v)
      else Inl (Exc ValueError
                 (''OPENROUTER_API_KEY not set in environment. '' @
                  ''Please set it in your MCP config or environment.'')))"


section \<open>server.py: the end\_episode tool\<close>

record server =
  srv_tracker :: tracker
  srv_storage :: storage

definition check_mark :: string where
  "check_mark = [CHR 0xE2, CHR 0x9C, CHR 0x93]"

definition not_found_text :: "string \<Rightarrow> string" where
  "not_found_text eid = ''Error: Episode '' @ eid @ '' not found''"

definition config_error_text :: "exc \<Rightarrow> string" where
  "config_error_text e =
     ''Episode ended but extraction failed: '' @ exc_message e @ [newline, newline] @
     ''The episode was completed successfully, but experience extraction requires:'' @
     [newline] @
     ''- OPENROUTER_API_KEY set in your MCP server environment'' @ [newline, newline] @
     ''Your episode data was NOT saved. Please fix the configuration and try again.''"

definition other_error_text :: "exc \<Rightarrow> string" where
  "other_error_text e =
     ''Episode ended but extraction failed: '' @ type_name (exc_class_of e) @ '': '' @
     exc_message e @ [newline, newline] @
     ''The episode was completed successfully, but experience extraction encountered an error.'' @
     [newline] @
     ''Your episode data was NOT saved. See error details above.''"

text \<open>The two \<^verbatim>\<open>except\<close> clauses around extraction and saving.\<close>

definition failure_text :: "exc \<Rightarrow> string" where
  "failure_text e =
     (if is_value_error (exc_class_of e) then config_error_text e else other_error_text e)"

text \<open>A value in an f-string: a string as it is, anything else through \<^verbatim>\<open>str\<close>.\<close>

definition format_json :: "world \<Rightarrow> json \<Rightarrow> string" where
  "format_json w v = (case v of JStr s \<Rightarrow> s | _ \<Rightarrow> py_str w v)"

text \<open>
  The text of the successful answer; joining the keywords raises \<^verbatim>\<open>TypeError\<close> when
  they are not strings.
\<close>

definition complete_text :: "world \<Rightarrow> string \<Rightarrow> pydict \<Rightarrow> exc + string" where
  "complete_text w filename x =
     (case join_json '', '' (dict_get x ''keywords'' (JList [])) of
        Inl e \<Rightarrow> Inl e
      | Inr ks \<Rightarrow>
          Inr (''Episode complete! '' @ check_mark @ [newline, newline] @
               ''Experience extracted and saved to '' @ filename @ '':'' @ [newline] @
               ''Pattern: '' @ format_json w (dict_get x ''pattern'' (JStr ''N/A'')) @ [newline] @
               ''Keywords: '' @ ks @ [newline] @
               ''Insight: '' @ format_json w (dict_get x ''insight'' (JStr ''N/A''))))"

definition failed_episode_text :: "string \<Rightarrow> string" where
  "failed_episode_text res =
     ''Episode ended: '' @ res @ [newline] @ ''(No experience extracted - episode failed)''"

definition no_get_attribute :: exc where
  "no_get_attribute = Exc AttributeError ''object has no attribute get''"

text \<open>The dictionary the server passes to \<^verbatim>\<open>save\<close>.\<close>

definition build_experience :: "Episode \<Rightarrow> string \<Rightarrow> pydict \<Rightarrow> pydict" where
  "build_experience episode res x =
     [(''id'', JStr (episode_id episode)),
      (''task'', JStr (task episode)),
      (''pattern'', dict_get x ''pattern'' (JStr [])),
      (''keywords'', dict_get x ''keywords'' (JList [])),
      (''insight'', dict_get x ''insight'' (JStr [])),
      (''attempts_count'', JNum (real (length (attempts episode)))),
      (''result'', JStr res),
      (''created_at'', JStr (created_at episode))]"

text \<open>
  The branch of \<^verbatim>\<open>call_tool\<close> for \<^verbatim>\<open>end_episode\<close>: the text returned and the state of
  the server afterwards. Extraction, saving and the formatting of the answer are inside
  one \<^verbatim>\<open>try\<close>; an answer that is JSON but not an object has no \<^verbatim>\<open>get\<close>.
\<close>

definition end_episode ::
  "world \<Rightarrow> server \<Rightarrow> string \<Rightarrow> string \<Rightarrow> bool \<Rightarrow> string option \<Rightarrow> string \<times> server" where
  "end_episode w sv eid res succ n =
     (case tracker_end (srv_tracker sv) eid res succ n of
        (None, tr) \<Rightarrow> (not_found_text eid, sv\<lparr>srv_tracker := tr\<rparr>)
      | (Some episode, tr) \<Rightarrow>
          (if succ
           then (case extract_experience w (to_kimi_input episode) of
                   Inl x \<Rightarrow> (failure_text x, sv\<lparr>srv_tracker := tr\<rparr>)
                 | Inr extracted \<Rightarrow>
                     (case extracted of
                        JDict x \<Rightarrow>
                          (let (r, st) = save w (srv_storage sv) (build_experience episode res x)
                           in case r of
                                Inl e \<Rightarrow> (failure_text e, \<lparr>srv_tracker = tr, srv_storage = st\<rparr>)
                              | Inr filename \<Rightarrow>
                                  (case complete_text w filename x of
                                     Inl e \<Rightarrow>
                                       (failure_text e, \<lparr>srv_tracker = tr, srv_storage = st\<rparr>)
                                   | Inr text \<Rightarrow>
                                       (text, \<lparr>srv_tracker = tr, srv_storage = st\<rparr>)))
                      | _ \<Rightarrow> (failure_text no_get_attribute, sv\<lparr>srv_tracker := tr\<rparr>)))
           else (failed_episode_text res, sv\<lparr>srv_tracker := tr\<rparr>)))"


section \<open>The statements of the specification, in its own words\<close>

text \<open>
  The notions the specification uses, defined here on their own and not through the
  functions of the code: white space and lower case by character codes, the words of a
  text as its maximal runs without white space, joining with spaces, occurrence as a
  contiguous piece (\<^const>\<open>sublist\<close>), and the cosine similarity with its epsilon.
\<close>

definition spec_whitespace :: "char \<Rightarrow> bool" where
  "spec_whitespace c =
     (let n = (of_char c :: nat)
      in n = 32 \<or> (9 \<le> n \<and> n \<le> 13) \<or> (28 \<le> n \<and> n \<le> 31))"

definition spec_lower_char :: "char \<Rightarrow> char" where
  "spec_lower_char c =
     (let n = (of_char c :: nat)
      in if 65 \<le> n \<and> n \<le> 90 then char_of (n + 32) else c)"

definition spec_lower :: "string \<Rightarrow> string" where
  "spec_lower s = map spec_lower_char s"

text \<open>The pieces of a text between its white-space characters, empty pieces included.\<close>

fun spec_runs :: "string \<Rightarrow> string list" where
  "spec_runs [] = [[]]"
| "spec_runs (c # cs) =
     (if spec_whitespace c then [] # spec_runs cs
      else (case spec_runs cs of
              [] \<Rightarrow> [[c]]
            | r # rs \<Rightarrow> (c # r) # rs))"

text \<open>The set of lower-cased white-space tokens of a query.\<close>

definition spec_query_tokens :: "string \<Rightarrow> string set" where
  "spec_query_tokens query = set (filter (\<lambda>t. t \<noteq> []) (spec_runs (spec_lower query)))"

definition spec_join_spaces :: "string list \<Rightarrow> string" where
  "spec_join_spaces xs =
     (case xs of
        [] \<Rightarrow> []
      | x # r \<Rightarrow> x @ concat (map (\<lambda>y. '' '' @ y) r))"

text \<open>
  The fields of a record as the data model has them: text for task, pattern and
  insight, a list of strings for the keywords, a vector for the embedding; a missing
  field is empty. A record is well typed when the four text fields, where present, have
  these types.
\<close>

definition text_field :: "pydict \<Rightarrow> string \<Rightarrow> string" where
  "text_field d k = (case map_of d k of Some (JStr s) \<Rightarrow> s | _ \<Rightarrow> [])"

definition strings_in :: "json list \<Rightarrow> string list" where
  "strings_in xs = concat (map (\<lambda>v. case v of JStr s \<Rightarrow> [s] | _ \<Rightarrow> []) xs)"

definition keywords_field :: "pydict \<Rightarrow> string list" where
  "keywords_field d =
     (case map_of d ''keywords'' of Some (JList xs) \<Rightarrow> strings_in xs | _ \<Rightarrow> [])"

definition is_jstr :: "json \<Rightarrow> bool" where
  "is_jstr v = (case v of JStr s \<Rightarrow> True | _ \<Rightarrow> False)"


definition is_text :: "json option \<Rightarrow> bool" where
  "is_text v = (case v of None \<Rightarrow> True | Some u \<Rightarrow> is_jstr u)"

definition is_keywords :: "json option \<Rightarrow> bool" where
  "is_keywords v =
     (case v of
        None \<Rightarrow> True
      | Some (JList xs) \<Rightarrow> list_all is_jstr xs
      | Some _ \<Rightarrow> False)"

definition well_typed :: "pydict \<Rightarrow> bool" where
  "well_typed d =
     (is_text (map_of d ''task'') \<and> is_text (map_of d ''pattern'') \<and>
      is_text (map_of d ''insight'') \<and> is_keywords (map_of d ''keywords''))"



text \<open>
  The haystack: the lower-cased space-joined concatenation of task, pattern, insight
  and the (space-joined) keywords.
\<close>

definition spec_haystack :: "pydict \<Rightarrow> string" where
  "spec_haystack d =
     spec_lower
       (spec_join_spaces
          [text_field d ''task'', text_field d ''pattern'', text_field d ''insight'',
           spec_join_spaces (keywords_field d)])"

text \<open>
  The keyword contribution: for each token of the query that occurs in the haystack a
  boost, and the same boost again when it also occurs between spaces in the haystack
  with one space added at each end.
\<close>

definition spec_keyword_score :: "real \<Rightarrow> string \<Rightarrow> pydict \<Rightarrow> real" where
  "spec_keyword_score boost query d =
     (\<Sum>word\<in>spec_query_tokens query.
        (if sublist word (spec_haystack d) then boost else 0) +
        (if sublist word (spec_haystack d) \<and>
            sublist ('' '' @ word @ '' '') ('' '' @ spec_haystack d @ '' '')
         then boost else 0))"


text \<open>A credential is available: the variable is set and not empty.\<close>

definition has_credential :: "world \<Rightarrow> bool" where
  "has_credential w = (case api_key w of None \<Rightarrow> False | Some k \<Rightarrow> 0 < length k)"

text \<open>
  A provider is available to a call: one is kept from an earlier call or can be built
  now.
\<close>

definition provider_available :: "world \<Rightarrow> storage \<Rightarrow> bool" where
  "provider_available w st = (embedding_gen st \<or> has_credential w)"

text \<open>
  Semantic scoring is active for a call: it was asked for, a provider is available and
  the embedding of the query succeeded.
\<close>

definition semantic_active :: "world \<Rightarrow> storage \<Rightarrow> string \<Rightarrow> bool \<Rightarrow> bool" where
  "semantic_active w st query semantic =
     (semantic \<and> provider_available w st \<and> \<not> isl (embed_search_text w query))"

text \<open>
  The text whose embedding \<^verbatim>\<open>save\<close> computes, a record without its embedding, and
  an embedding being present (the key is there and its value is not null).
\<close>

definition spec_search_text :: "pydict \<Rightarrow> string" where
  "spec_search_text d =
     spec_join_spaces
       [text_field d ''task'', text_field d ''pattern'', text_field d ''insight'',
        spec_join_spaces (keywords_field d)]"

definition without_embedding :: "pydict \<Rightarrow> pydict" where
  "without_embedding d = filter (\<lambda>p. fst p \<noteq> ''embedding'') d"

definition embedding_present :: "pydict \<Rightarrow> bool" where
  "embedding_present d =
     (case map_of d ''embedding'' of None \<Rightarrow> False | Some JNull \<Rightarrow> False | Some _ \<Rightarrow> True)"

text \<open>Every file of the corpus has a modification time earlier than \<open>m\<close>.\<close>

definition all_earlier :: "nat \<Rightarrow> dir_entry list \<Rightarrow> bool" where
  "all_earlier m fs =
     list_all (\<lambda>f. case fst (snd f) of None \<Rightarrow> False | Some k \<Rightarrow> k < m) fs"


text \<open>
  A corpus of the data model: every file cannot be opened, is not JSON, or holds a well
  typed record. Its records, in listing order, and the result of a keyword-only search
  as the specification describes it: the records with a positive keyword score, by
  score descending, cut at the limit.
\<close>

definition typed_file :: "dir_entry \<Rightarrow> bool" where
  "typed_file f =
     (case snd (snd f) of
        Unreadable \<Rightarrow> True
      | Malformed \<Rightarrow> True
      | Not_utf8 \<Rightarrow> False
      | Holds v \<Rightarrow> (case v of JDict e \<Rightarrow> well_typed e | _ \<Rightarrow> False))"

definition records_of :: "dir_entry list \<Rightarrow> pydict list" where
  "records_of fs =
     concat (map (\<lambda>f. case snd (snd f) of Holds (JDict e) \<Rightarrow> [e] | _ \<Rightarrow> []) fs)"

definition spec_keyword_search :: "storage \<Rightarrow> string \<Rightarrow> int \<Rightarrow> pydict list" where
  "spec_keyword_search st query limit =
     map snd
       (take (nat limit)
          (sort_key (\<lambda>p. - fst p)
             (filter (\<lambda>p. 0 < fst p)
                (map (\<lambda>e. (spec_keyword_score 1 query e, e))
                   (records_of (glob (files st)))))))"


section \<open>Concrete inputs\<close>

definition traceback_text :: string where
  \<open>traceback_text =
     ''Traceback...\<newline>  File "main.py", line 42, in <module>\<newline>TimeoutError: deadline exceeded''\<close>

definition frame_text :: string where
  \<open>frame_text = ''  File "main.py", line 42, in <module>''\<close>

definition episode0 :: Episode where
  "episode0 =
     \<lparr>episode_id = ''ep_20240101_120000_000001'', task = ''fix timeout bug'',
      created_at = ''2024-01-01T12:00:00.000001'', attempts = [],
      final_result = None, final_success = None, notes = None\<rparr>"

definition failed_once :: Episode where
  "failed_once = add_attempt episode0 ''raise the limit'' (Some ''TimeoutError'') None False"

definition solved_episode :: Episode where
  "solved_episode = add_attempt failed_once ''set a deadline'' None None True"

definition noon :: datetime where
  "noon = \<lparr>year = 2024, month = 1, day = 1, hour = 12, minute = 0, second = 0,
           microsecond = 1\<rparr>"

definition noon_later :: datetime where
  "noon_later = noon\<lparr>microsecond := 900000\<rparr>"

definition remote_down :: exc where
  "remote_down = Exc APIError ''connection refused''"

definition answer :: json where
  "answer =
     JDict [(''pattern'', JStr ''added explicit timeout''),
            (''keywords'', JList [JStr ''timeout'', JStr ''async'']),
            (''insight'', JStr ''set deadline before await'')]"

text \<open>An answer of the model with a null pattern.\<close>

definition null_answer :: json where
  "null_answer =
     JDict [(''pattern'', JNull),
            (''keywords'', JList [JStr ''timeout'']),
            (''insight'', JStr ''set deadline before await'')]"

text \<open>No credential, every remote call fails.\<close>

definition world_offline :: world where
  "world_offline =
     \<lparr>api_key = None, now = noon, file_mtime = 100, disk_write = None,
      embed = (\<lambda>t. Inl remote_down), embed_search_text = (\<lambda>t. Inl remote_down),
      llm = (\<lambda>k. Call_raises remote_down),
      np_other = (\<lambda>q v. Inl (Exc TypeError ''unsupported operand'')),
      py_str = (\<lambda>v. ''None'')\<rparr>"

text \<open>A credential, the embedding service down, the extraction answering.\<close>

definition world_no_embedding :: world where
  "world_no_embedding =
     \<lparr>api_key = Some ''sk-test'', now = noon, file_mtime = 100, disk_write = None,
      embed = (\<lambda>t. Inl remote_down), embed_search_text = (\<lambda>t. Inl remote_down),
      llm = (\<lambda>k. Parsed answer),
      np_other = (\<lambda>q v. Inl (Exc TypeError ''unsupported operand'')),
      py_str = (\<lambda>v. ''None'')\<rparr>"

text \<open>A credential and every remote call answering.\<close>

definition world_online :: world where
  "world_online =
     \<lparr>api_key = Some ''sk-test'', now = noon, file_mtime = 100, disk_write = None,
      embed = (\<lambda>t. Inr [4, 3]), embed_search_text = (\<lambda>t. Inr [3, 4]),
      llm = (\<lambda>k. Parsed answer),
      np_other = (\<lambda>q v. Inl (Exc TypeError ''unsupported operand'')),
      py_str = (\<lambda>v. ''None'')\<rparr>"

text \<open>Everything answering, but the directory cannot be written.\<close>

definition world_disk_full :: world where
  "world_disk_full = world_online\<lparr>disk_write := Some (Exc OSError ''No space left on device'')\<rparr>"

text \<open>Everything answering, the extraction with a null pattern.\<close>

definition world_null_answer :: world where
  "world_null_answer = world_online\<lparr>llm := (\<lambda>k. Parsed null_answer)\<rparr>"

definition timeout_record :: pydict where
  "timeout_record =
     [(''id'', JStr ''ep_1''), (''task'', JStr ''Fix Timeout bug''),
      (''pattern'', JStr ''added explicit timeout''),
      (''keywords'', JList [JStr ''timeout'', JStr ''async'']),
      (''insight'', JStr ''Set deadline before await''),
      (''attempts_count'', JNum 2), (''result'', JStr ''fixed''),
      (''created_at'', JStr ''2024-01-01T12:00:00'')]"

definition parser_record :: pydict where
  "parser_record =
     [(''id'', JStr ''ep_2''), (''task'', JStr ''parse config''),
      (''pattern'', JStr ''quote the keys''),
      (''keywords'', JList [JStr ''yaml'']),
      (''insight'', JStr ''validate before load''),
      (''attempts_count'', JNum 1), (''result'', JStr ''parsed''),
      (''created_at'', JStr ''2024-01-01T11:00:00'')]"

text \<open>The first record with a null pattern, and with an embedding of the caller's.\<close>

definition null_pattern_record :: pydict where
  "null_pattern_record = dict_set ''pattern'' JNull timeout_record"

definition preset_record :: pydict where
  "preset_record = dict_set ''embedding'' (JList [JNum 1, JNum 2]) timeout_record"

text \<open>The first record as stored with an embedding.\<close>

definition stored_timeout :: pydict where
  "stored_timeout = dict_set ''embedding'' (JList [JNum 4, JNum 3]) timeout_record"

definition empty_storage :: storage where
  "empty_storage = \<lparr>files = [], embedding_gen = False\<rparr>"

definition small_storage :: storage where
  "small_storage =
     \<lparr>files =
        [(''exp_20240101_110000.json'', Some 50, Holds (JDict parser_record)),
         (''notes.txt'', Some 60, Malformed),
         (''exp_20240101_113000.json'', Some 70, Malformed),
         (''exp_20240101_115000.json'', Some 80,
          Holds (JDict stored_timeout))],
      embedding_gen = False\<rparr>"

text \<open>
  Directories with one file each: an object with a null task, bytes that are not UTF-8,
  a JSON list, and a record written later than the clock of the examples.
\<close>

definition null_task_storage :: storage where
  "null_task_storage =
     \<lparr>files = [(''exp_20240101_100000.json'', Some 40, Holds (JDict [(''task'', JNull)]))],
      embedding_gen = False\<rparr>"

definition binary_storage :: storage where
  "binary_storage =
     \<lparr>files = [(''exp_20240101_100000.json'', Some 40, Not_utf8)], embedding_gen = False\<rparr>"

definition list_storage :: storage where
  "list_storage =
     \<lparr>files = [(''exp_20240101_100000.json'', Some 40, Holds (JList []))],
      embedding_gen = False\<rparr>"

definition later_storage :: storage where
  "later_storage =
     \<lparr>files = [(''exp_20240101_130000.json'', Some 200, Holds (JDict parser_record))],
      embedding_gen = False\<rparr>"

text \<open>
  One file written at the very time of the clock of the examples, and one directory
  entry whose \<^verbatim>\<open>stat()\<close> fails (a dangling link).
\<close>

definition tie_storage :: storage where
  "tie_storage =
     \<lparr>files = [(''exp_20240101_115959.json'', Some 100, Holds (JDict parser_record))],
      embedding_gen = False\<rparr>"

definition dangling_storage :: storage where
  "dangling_storage =
     \<lparr>files = [(''exp_20240101_090000.json'', None, Unreadable)], embedding_gen = False\<rparr>"

definition server0 :: server where
  "server0 =
     \<lparr>srv_tracker = [''ep_20240101_120000_000001'' \<mapsto> solved_episode],
      srv_storage = empty_storage\<rparr>"


section \<open>Slices, and the code against the notions of the specification\<close>

lemmas string_defs =
  py_strip_def is_space_def is_word_def is_digit_def newline_def dquote_def

lemma py_slice_from_neg: "0 < n \<Longrightarrow> py_slice_from (- n) xs = drop (length xs - nat n) xs"
  by (simp add: py_slice_from_def Let_def max_def nat_diff_distrib')

lemma py_slice_to_nonneg: "0 \<le> j \<Longrightarrow> py_slice_to j xs = take (nat j) xs"
  by (simp add: py_slice_to_def Let_def min_def)

lemma py_slice_to_one: "py_slice_to 1 (x # xs) = [x]"
  by (simp add: py_slice_to_def Let_def min_def)

lemma is_space_spec: "is_space c = spec_whitespace c"
  by (cases c) (simp add: is_space_def spec_whitespace_def Let_def)

lemma char_of_eqI: "(of_char c :: nat) = n \<Longrightarrow> c = char_of n"
  by auto

lemma char_lower_spec: "char_lower c = spec_lower_char c"
  apply (cases c)
  apply (simp add: char_lower_def spec_lower_char_def Let_def)
  apply (auto intro!: char_of_eqI)
  done

lemma py_lower_spec: "py_lower s = spec_lower s"
  by (simp add: py_lower_def spec_lower_def char_lower_spec)

lemma py_in_sublist: "py_in w t = sublist w t"
  by (induction t) (auto simp: sublist_Cons_right)

lemma py_join_spec: "py_join '' '' xs = spec_join_spaces xs"
  by (induction "'' ''" xs rule: py_join.induct) (simp_all add: spec_join_spaces_def)

lemma spec_runs_not_empty: "spec_runs s \<noteq> []"
  by (induction s) (auto split: list.splits)

lemma split_ws_from_runs:
  "split_ws_from cur s =
     filter (\<lambda>t. t \<noteq> []) ((cur @ hd (spec_runs s)) # tl (spec_runs s))"
proof (induction s arbitrary: cur)
  case Nil
  then show ?case by simp
next
  case (Cons c cs)
  obtain r rs where r: "spec_runs cs = r # rs"
    using spec_runs_not_empty[of cs] by (cases "spec_runs cs") auto
  show ?case
    by (simp add: Cons.IH r is_space_spec)
qed

lemma py_split_runs: "py_split s = filter (\<lambda>t. t \<noteq> []) (spec_runs s)"
proof -
  obtain r rs where r: "spec_runs s = r # rs"
    using spec_runs_not_empty[of s] by (cases "spec_runs s") auto
  then show ?thesis by (simp add: py_split_def split_ws_from_runs)
qed

lemma query_words_spec:
  "set (query_words query) = spec_query_tokens query" "distinct (query_words query)"
  by (simp_all add: query_words_def spec_query_tokens_def py_split_runs py_lower_spec)





lemma all_strs_typed: "list_all is_jstr xs \<Longrightarrow> all_strs xs = Some (strings_in xs)"
  by (induction xs rule: all_strs.induct) (simp_all add: is_jstr_def strings_in_def)


lemma as_str_text:
  "is_text (map_of d k) \<Longrightarrow> as_str (dict_get d k (JStr [])) = Inr (text_field d k)"
  by (auto simp: is_text_def is_jstr_def dict_get_def text_field_def split: option.splits json.splits)

lemma join_keywords:
  "is_keywords (map_of d ''keywords'') \<Longrightarrow>
   join_json sep (dict_get d ''keywords'' (JList [])) = Inr (py_join sep (keywords_field d))"
  by (auto simp: is_keywords_def dict_get_def keywords_field_def all_strs_typed strings_in_def
           split: option.splits json.splits)

lemma keyword_text_typed: "well_typed d \<Longrightarrow> keyword_text d = Inr (spec_haystack d)"
  by (simp add: well_typed_def keyword_text_def as_str_text join_keywords spec_haystack_def
      py_lower_spec py_join_spec spec_join_spaces_def)

lemma search_text_typed: "well_typed d \<Longrightarrow> search_text d = Inr (spec_search_text d)"
  by (simp add: well_typed_def search_text_def join_keywords spec_search_text_def
      py_join_spec)
     (auto simp: is_text_def is_jstr_def dict_get_def text_field_def spec_join_spaces_def
           split: option.splits json.splits)


lemma keyword_loop_sum:
  "keyword_loop boost text ws score =
     score + (\<Sum>word\<leftarrow>ws.
        (if sublist word text then boost else 0) +
        (if sublist word text \<and> sublist ('' '' @ word @ '' '') ('' '' @ text @ '' '')
         then boost else 0))"
  by (induction ws arbitrary: score) (auto simp: py_in_sublist)

lemma keyword_loop_spec:
  "keyword_loop boost (spec_haystack d) (query_words query) score =
     score + spec_keyword_score boost query d"
  using query_words_spec[of query]
  by (simp add: keyword_loop_sum spec_keyword_score_def sum_list_distinct_conv_sum_set)


section \<open>Failures of an episode\<close>

text \<open>
  With a positive limit \<open>n\<close>, \<^verbatim>\<open>get_failures\<close> returns the last \<open>n\<close> failed attempts in
  their order (all of them when there are fewer).
\<close>

lemma get_failures_last:
  "0 < n \<Longrightarrow>
   get_failures ep n =
     drop (length (filter (\<lambda>a. \<not> success a) (attempts ep)) - nat n)
       (filter (\<lambda>a. \<not> success a) (attempts ep))"
  by (simp add: get_failures_def py_slice_from_neg)

text \<open>
  Claim C9. The last \<open>n\<close> failed attempts, in insertion order, for every limit
  \<open>n \<ge> 0\<close>: at \<open>n = 0\<close> that is the empty sequence. The slice \<^verbatim>\<open>failed[-0:]\<close> is
  \<^verbatim>\<open>failed[0:]\<close>, so the code returns every failed attempt: for the episode with one
  failed attempt and limit 0 the result is that attempt.
\<close>

theorem get_failures_zero_limit:
  "get_failures failed_once 0 =
     [\<lparr>short_desc = ''raise the limit'', error_type = Some ''TimeoutError'',
       error_line = None, success = False\<rparr>]"
  by (simp add: get_failures_def failed_once_def add_attempt_def episode0_def py_slice_from_def)


section \<open>The error summary\<close>

text \<open>Text without a traceback frame is summarised without an exception.\<close>

lemma extract_error_summary_no_frame:
  "first_match line_pattern_search (split_on newline (py_strip s)) = None \<Longrightarrow>
   \<exists>r. extract_error_summary s = Inr r"
  by (simp add: extract_error_summary_def Let_def)

text \<open>
  Claim C3. No exception for any input. The module never imports \<^verbatim>\<open>Path\<close>, so a line
  with a traceback frame makes the function raise \<^verbatim>\<open>NameError\<close>: the frame line of the
  function's own docstring example does.
\<close>

theorem extract_error_summary_frame_raises:
  "extract_error_summary frame_text =
     Inl (Exc NameError (''name '' @ [CHR 0x27] @ ''Path'' @ [CHR 0x27] @ '' is not defined''))"
  unfolding frame_text_def
  by (simp add: extract_error_summary_def string_defs py_slice_from_def error_pattern_match_def
      word_plus_lit_def line_pattern_at_def strip_prefix_def load_global_def episode_globals_def)

text \<open>
  Claim C4. The traceback example yields the error kind \<^verbatim>\<open>TimeoutError\<close> and the location
  \<^verbatim>\<open>main.py:42\<close>, and the empty string yields no kind and no location. The empty string
  does; on the traceback example the function raises \<^verbatim>\<open>NameError\<close> when it formats the
  location.
\<close>

theorem extract_error_summary_examples:
  "extract_error_summary [] = Inr (None, None) \<and>
   extract_error_summary traceback_text =
     Inl (Exc NameError (''name '' @ [CHR 0x27] @ ''Path'' @ [CHR 0x27] @ '' is not defined''))"
  unfolding traceback_text_def
  by (simp add: extract_error_summary_def string_defs py_slice_from_def error_pattern_match_def
      word_plus_lit_def line_pattern_at_def strip_prefix_def load_global_def episode_globals_def)


section \<open>Scoring\<close>

lemma has_credential_truthy: "has_credential w = truthy_key (api_key w)"
  by (simp add: has_credential_def truthy_key_def split: option.splits)

lemma fst_get_embedding_gen: "fst (get_embedding_gen w st) = provider_available w st"
  by (simp add: get_embedding_gen_def provider_available_def has_credential_truthy)

lemma files_get_embedding_gen: "files (snd (get_embedding_gen w st)) = files st"
  by (simp add: get_embedding_gen_def)

lemma query_embedding_inactive:
  "\<not> semantic_active w st query semantic \<Longrightarrow>
   fst (query_embedding w st query semantic) = None"
  using fst_get_embedding_gen[of w st]
  by (auto simp: semantic_active_def query_embedding_def Let_def split_beta
           split: sum.splits)


lemma files_query_embedding:
  "files (snd (query_embedding w st query semantic)) = files st"
  using files_get_embedding_gen[of w st]
  by (auto simp: query_embedding_def Let_def split_beta split: sum.splits)

lemma scored_scan:
  "scored w st query semantic =
     scan w (fst (query_embedding w st query semantic)) (query_words query)
       (glob (files st)) []"
  using files_query_embedding[of w st query semantic]
  by (simp add: scored_def split_beta)

lemma score_record_keyword_only:
  "well_typed e \<Longrightarrow>
   score_record w None (query_words query) e = Inr (spec_keyword_score 1 query e)"
  by (simp add: score_record_def semantic_score_def keyword_text_typed keyword_loop_spec)










lemma well_typed_timeout: "well_typed timeout_record"
  by (simp add: timeout_record_def well_typed_def is_text_def is_keywords_def is_jstr_def)












lemma glob_small:
  "glob (files small_storage) =
     [(''exp_20240101_110000.json'', Some 50, Holds (JDict parser_record)),
      (''exp_20240101_113000.json'', Some 70, Malformed),
      (''exp_20240101_115000.json'', Some 80, Holds (JDict stored_timeout))]"
  by (simp add: small_storage_def glob_def glob_match_def)





section \<open>Search without embeddings\<close>

lemma scan_keyword_only:
  "list_all typed_file fs \<Longrightarrow>
   scan w None (query_words query) fs acc =
     Inr (acc @ filter (\<lambda>p. 0 < fst p)
                  (map (\<lambda>e. (spec_keyword_score 1 query e, e)) (records_of fs)))"
proof (induction fs arbitrary: acc)
  case Nil
  then show ?case by (simp add: records_of_def)
next
  case (Cons f fs)
  then have IH: "\<And>acc. scan w None (query_words query) fs acc =
     Inr (acc @ filter (\<lambda>p. 0 < fst p)
                  (map (\<lambda>e. (spec_keyword_score 1 query e, e)) (records_of fs)))"
    by simp
  have rec: "records_of (f # fs) =
      (case snd (snd f) of Holds (JDict e) \<Rightarrow> [e] | _ \<Rightarrow> []) @ records_of fs"
    by (simp add: records_of_def)
  from Cons.prems have "typed_file f" by simp
  then show ?case
    by (auto simp: typed_file_def IH rec score_record_keyword_only
             split: stored_file.splits json.splits)
qed

text \<open>
  On a corpus of the data model, a search without a provider or with a failing query
  embedding raises nothing and returns the keyword-only ranking.
\<close>

lemma search_keyword_fallback_typed:
  assumes "\<not> provider_available w st \<or> isl (embed_search_text w query)"
    and "0 \<le> limit" and "list_all typed_file (glob (files st))"
  shows "fst (search w st query limit semantic) = Inr (spec_keyword_search st query limit)"
proof -
  from assms(1) have "\<not> semantic_active w st query semantic"
    by (auto simp: semantic_active_def)
  then have "fst (query_embedding w st query semantic) = None"
    by (rule query_embedding_inactive)
  with assms(3) have "scored w st query semantic =
      Inr (filter (\<lambda>p. 0 < fst p)
            (map (\<lambda>e. (spec_keyword_score 1 query e, e)) (records_of (glob (files st)))))"
    by (simp add: scored_scan scan_keyword_only)
  with assms(2) show ?thesis
    by (simp add: search_def spec_keyword_search_def py_slice_to_nonneg)
qed

lemma query_embedding_offline:
  "\<not> embedding_gen st \<Longrightarrow> fst (query_embedding world_offline st query semantic) = None"
  by (simp add: query_embedding_def get_embedding_gen_def truthy_key_def world_offline_def)

lemma glob_name: "glob_match ''exp_20240101_100000.json''"
  by (simp add: glob_match_def)

text \<open>Without a provider \<^verbatim>\<open>save\<close> itself writes a record with a null task.\<close>

lemma save_null_task:
  "save world_offline empty_storage [(''task'', JNull)] =
     (Inr ''exp_20240101_120000.json'',
      \<lparr>files = [(''exp_20240101_120000.json'', Some 100, Holds (JDict [(''task'', JNull)]))],
       embedding_gen = False\<rparr>)"
proof -
  have "save_filename noon = ''exp_20240101_120000.json''" by code_simp
  then show ?thesis
    by (simp add: save_def get_embedding_gen_def truthy_key_def world_offline_def
        empty_storage_def Let_def)
qed

text \<open>
  Claim C5. With no provider, \<^verbatim>\<open>search\<close> raises no exception for any corpus. The loop
  catches \<^verbatim>\<open>json.JSONDecodeError\<close> and \<^verbatim>\<open>IOError\<close> only: with no credential, a corpus
  of one file makes it raise \<^verbatim>\<open>TypeError\<close> when the file holds an object with a null
  task, \<^verbatim>\<open>UnicodeDecodeError\<close> when its bytes are not UTF-8, and \<^verbatim>\<open>AttributeError\<close>
  when it holds a JSON list.
\<close>

theorem search_raises_on_corpus:
  "fst (search world_offline null_task_storage ''timeout'' 5 True) =
     Inl (Exc TypeError ''can only concatenate str to str'') \<and>
   fst (search world_offline binary_storage ''timeout'' 5 True) =
     Inl (Exc UnicodeDecodeError ''invalid start byte'') \<and>
   fst (search world_offline list_storage ''timeout'' 5 True) =
     Inl (Exc AttributeError ''object has no attribute get'')"
proof -
  have 1: "scored world_offline null_task_storage ''timeout'' True =
      Inl (Exc TypeError ''can only concatenate str to str'')"
    by (simp add: scored_scan query_embedding_offline null_task_storage_def glob_def glob_name
        score_record_def semantic_score_def keyword_text_def dict_get_def)
  have 2: "scored world_offline binary_storage ''timeout'' True =
      Inl (Exc UnicodeDecodeError ''invalid start byte'')"
    by (simp add: scored_scan query_embedding_offline binary_storage_def glob_def glob_name)
  have 3: "scored world_offline list_storage ''timeout'' True =
      Inl (Exc AttributeError ''object has no attribute get'')"
    by (simp add: scored_scan query_embedding_offline list_storage_def glob_def glob_name)
  from 1 2 3 show ?thesis by (simp add: search_def)
qed


section \<open>Saving\<close>

lemma map_of_write_file: "map_of (write_file name ent fs) = (map_of fs)(name \<mapsto> ent)"
  by (induction fs) (auto simp: fun_eq_iff)

lemma set_write_file:
  "(name, ent) \<in> set (write_file name ent fs) \<and>
   set (write_file name ent fs) \<subseteq> insert (name, ent) (set fs)"
  by (induction fs) auto

lemma glob_write_file:
  assumes "glob_match name"
  shows "(name, ent) \<in> set (glob (write_file name ent fs)) \<and>
         set (glob (write_file name ent fs)) \<subseteq> insert (name, ent) (set (glob fs))"
  using assms set_write_file[of name ent fs] by (auto simp: glob_def)

lemma glob_match_save_filename: "glob_match (save_filename d)"
  by (simp add: glob_match_def save_filename_def)

lemma map_of_dict_set: "map_of (dict_set k v d) = (map_of d)(k \<mapsto> v)"
  by (induction d) (auto simp: fun_eq_iff)

lemma without_embedding_dict_set:
  "without_embedding (dict_set ''embedding'' v d) = without_embedding d"
  by (induction d) (auto simp: without_embedding_def)

lemma hd_sort_key_least:
  assumes "x \<in> set xs" and "\<forall>y\<in>set xs. y \<noteq> x \<longrightarrow> k x < k y"
  shows "\<exists>ys. sort_key k xs = x # ys"
proof -
  from assms(1) have "sort_key k xs \<noteq> []" by (metis empty_iff list.set(1) set_sort)
  then obtain h ys where h: "sort_key k xs = h # ys" by (cases "sort_key k xs") auto
  have "sorted (map k (h # ys))" using sorted_sort_key[of k xs] h by simp
  moreover have "x \<in> set (h # ys)" using assms(1) h by (metis set_sort)
  ultimately have "k h \<le> k x" by auto
  moreover have "h \<in> set xs" using h by (metis list.set_intros(1) set_sort)
  ultimately have "h = x" using assms(2) by force
  with h show ?thesis by simp
qed

lemma stat_all_known:
  "list_all (\<lambda>f. fst (snd f) \<noteq> None) fs \<Longrightarrow>
   stat_all fs = Inr (map (\<lambda>f. (the (fst (snd f)), f)) fs)"
  by (induction fs) auto

text \<open>The record \<^verbatim>\<open>save\<close> persists for a well typed record.\<close>

lemma attach_embedding_typed:
  "well_typed e \<Longrightarrow>
   attach_embedding w e =
     Inr (dict_set ''embedding''
            (case embed w (spec_search_text e) of Inl x \<Rightarrow> JNull | Inr v \<Rightarrow> JList (map JNum v))
            e)"
  by (simp add: attach_embedding_def search_text_typed)

lemma save_typed:
  assumes "well_typed e"
  shows "fst (save w st e) =
           (case disk_write w of None \<Rightarrow> Inr (save_filename (now w)) | Some x \<Rightarrow> Inl x)"
    and "disk_write w = None \<Longrightarrow>
         files (snd (save w st e)) =
           write_file (save_filename (now w))
             (Some (file_mtime w),
              Holds (JDict (if provider_available w st
                            then dict_set ''embedding''
                                   (case embed w (spec_search_text e) of
                                      Inl x \<Rightarrow> JNull
                                    | Inr v \<Rightarrow> JList (map JNum v)) e
                            else e)))
             (files st)"
  using assms fst_get_embedding_gen[of w st] files_get_embedding_gen[of w st]
  by (auto simp: save_def Let_def split_beta attach_embedding_typed split: option.splits)

lemma save_name_noon: "save_filename noon = ''exp_20240101_120000.json''"
  by code_simp

lemma save_name_noon_later: "save_filename noon_later = ''exp_20240101_120000.json''"
  using save_name_noon by (simp add: save_filename_def strftime_YmdHMS_def noon_later_def)

lemma well_typed_parser: "well_typed parser_record"
  by (simp add: parser_record_def well_typed_def is_text_def is_keywords_def is_jstr_def)

lemma offline_facts:
  "disk_write world_offline = None" "now world_offline = noon"
  "file_mtime world_offline = 100" "\<not> provider_available world_offline empty_storage"
  "\<not> provider_available world_offline later_storage"
  "\<not> provider_available world_offline tie_storage"
  "\<not> provider_available world_offline dangling_storage"
  by (simp_all add: world_offline_def provider_available_def has_credential_def
      empty_storage_def later_storage_def tie_storage_def dangling_storage_def)

lemma empty_storage_facts: "files empty_storage = []" "embedding_gen empty_storage = False"
  by (simp_all add: empty_storage_def)

lemma save_offline:
  "fst (save world_offline empty_storage timeout_record) = Inr ''exp_20240101_120000.json''"
  "files (snd (save world_offline empty_storage timeout_record)) =
     [(''exp_20240101_120000.json'', Some 100, Holds (JDict timeout_record))]"
  by (simp_all add: save_typed well_typed_timeout offline_facts save_name_noon
      empty_storage_facts)

lemma embedding_gen_get_embedding_gen:
  "embedding_gen (snd (get_embedding_gen w st)) = provider_available w st"
  by (simp add: get_embedding_gen_def provider_available_def has_credential_truthy)

lemma embedding_gen_save: "embedding_gen (snd (save w st e)) = provider_available w st"
  using embedding_gen_get_embedding_gen[of w st]
  by (simp add: save_def Let_def split_beta split: sum.splits option.splits)

lemma embedding_gen_save_offline:
  "embedding_gen (snd (save world_offline empty_storage e)) = False"
  by (simp add: embedding_gen_save offline_facts)

text \<open>
  Claim C2. Two saves never get the same file name, also within one clock second. The
  name is \<^verbatim>\<open>exp_\<close> and the time to the second, and the file is opened with mode
  \<^verbatim>\<open>"w"\<close>: two saves at 12:00:00 (microseconds 1 and 900000) return the same name, and
  after the second save the directory holds only the second record.
\<close>

theorem save_same_second_overwrites:
  "fst (save world_offline empty_storage timeout_record) = Inr ''exp_20240101_120000.json'' \<and>
   fst (save (world_offline\<lparr>now := noon_later, file_mtime := 101\<rparr>)
          (snd (save world_offline empty_storage timeout_record)) parser_record) =
     Inr ''exp_20240101_120000.json'' \<and>
   files (snd (save (world_offline\<lparr>now := noon_later, file_mtime := 101\<rparr>)
                 (snd (save world_offline empty_storage timeout_record)) parser_record)) =
     [(''exp_20240101_120000.json'', Some 101, Holds (JDict parser_record))]"
proof -
  let ?w = "world_offline\<lparr>now := noon_later, file_mtime := 101\<rparr>"
  let ?st = "snd (save world_offline empty_storage timeout_record)"
  have w: "disk_write ?w = None" "now ?w = noon_later" "file_mtime ?w = 101"
    by (simp_all add: world_offline_def)
  have "\<not> has_credential ?w"
    by (simp add: has_credential_def world_offline_def)
  then have "\<not> provider_available ?w ?st"
    by (simp add: provider_available_def embedding_gen_save_offline)
  with w show ?thesis
    by (simp add: save_typed well_typed_parser save_offline save_name_noon_later)
qed

lemma online_facts:
  "provider_available world_online st" "provider_available world_no_embedding st"
  "provider_available world_disk_full st" "provider_available world_null_answer st"
  by (simp_all add: provider_available_def has_credential_def world_online_def
      world_no_embedding_def world_disk_full_def world_null_answer_def)

lemma search_text_null_pattern:
  "search_text null_pattern_record = Inl (Exc TypeError ''sequence item: expected str instance'')"
  by (simp add: search_text_def null_pattern_record_def timeout_record_def dict_get_def)

lemma save_null_pattern:
  "fst (save world_online empty_storage null_pattern_record) =
     Inl (Exc TypeError ''sequence item: expected str instance'')"
  "files (snd (save world_online empty_storage null_pattern_record)) = []"
  using fst_get_embedding_gen[of world_online empty_storage]
    files_get_embedding_gen[of world_online empty_storage]
  by (simp_all add: save_def Let_def split_beta online_facts attach_embedding_def
      search_text_null_pattern empty_storage_facts)

lemma save_preset:
  "files (snd (save world_offline empty_storage preset_record)) =
     [(''exp_20240101_120000.json'', Some 100, Holds (JDict preset_record))]"
  using fst_get_embedding_gen[of world_offline empty_storage]
    files_get_embedding_gen[of world_offline empty_storage]
  by (simp add: save_def Let_def split_beta offline_facts save_name_noon empty_storage_facts)

lemma preset_present: "embedding_present preset_record"
  by (simp add: embedding_present_def preset_record_def map_of_dict_set)

text \<open>
  For a record of the data model \<^verbatim>\<open>save\<close> raises only what writing the file raises.
\<close>

lemma save_typed_raises:
  "well_typed e \<Longrightarrow> (fst (save w st e) = Inl x) = (disk_write w = Some x)"
  by (cases "disk_write w") (simp_all add: save_typed)

text \<open>
  Claim C6. \<^verbatim>\<open>save\<close> never fails on account of the embedding step, and without a
  provider or with a failing embedding call the persisted record has a null embedding.
  The text to embed is joined outside the \<^verbatim>\<open>try\<close>: with a provider, a record whose
  pattern is null makes \<^verbatim>\<open>save\<close> raise \<^verbatim>\<open>TypeError\<close> and nothing is written. And
  without a provider, a record that already carries an embedding is persisted with it.
\<close>

theorem save_raises_in_embedding_step:
  "fst (save world_online empty_storage null_pattern_record) =
     Inl (Exc TypeError ''sequence item: expected str instance'') \<and>
   files (snd (save world_online empty_storage null_pattern_record)) = [] \<and>
   files (snd (save world_offline empty_storage preset_record)) =
     [(''exp_20240101_120000.json'', Some 100, Holds (JDict preset_record))] \<and>
   embedding_present preset_record"
  by (simp add: save_null_pattern save_preset preset_present)


section \<open>Saving and reading back\<close>

lemma get_recent_after_write:
  assumes "glob_match name" and "all_earlier m (glob fs)"
  shows "get_recent (st\<lparr>files := write_file name (Some m, Holds v) fs\<rparr>) 1 = Inr [v]"
proof -
  let ?new = "(name, Some m, Holds v) :: dir_entry"
  let ?gs = "glob (write_file name (Some m, Holds v) fs)"
  let ?key = "\<lambda>f :: dir_entry. (the (fst (snd f)), f)"
  let ?k = "\<lambda>p :: nat \<times> dir_entry. - int (fst p)"
  have mem: "?new \<in> set ?gs" and sub: "set ?gs \<subseteq> insert ?new (set (glob fs))"
    using glob_write_file[OF assms(1), of "(Some m, Holds v)" fs] by blast+
  have old: "\<And>f. f \<in> set (glob fs) \<Longrightarrow> \<exists>k. fst (snd f) = Some k \<and> k < m"
    using assms(2) by (auto simp: all_earlier_def list_all_iff split: option.splits)
  have "list_all (\<lambda>f. fst (snd f) \<noteq> None) ?gs"
    unfolding list_all_iff
  proof
    fix f assume "f \<in> set ?gs"
    with sub have "f = ?new \<or> f \<in> set (glob fs)" by auto
    then show "fst (snd f) \<noteq> None" using old[of f] by fastforce
  qed
  then have stat: "stat_all ?gs = Inr (map ?key ?gs)" by (rule stat_all_known)
  have x: "(m, ?new) \<in> set (map ?key ?gs)" using mem by force
  have least: "\<forall>y\<in>set (map ?key ?gs). y \<noteq> (m, ?new) \<longrightarrow> ?k (m, ?new) < ?k y"
  proof (intro ballI impI)
    fix y assume y: "y \<in> set (map ?key ?gs)" and ne: "y \<noteq> (m, ?new)"
    then obtain f where f: "f \<in> set ?gs" "y = ?key f" by auto
    with ne have "f \<noteq> ?new" by auto
    with f sub have "f \<in> set (glob fs)" by auto
    from old[OF this] f show "?k (m, ?new) < ?k y" by auto
  qed
  from hd_sort_key_least[OF x least]
  obtain ys where "sort_key ?k (map ?key ?gs) = (m, ?new) # ys" by blast
  with stat show ?thesis
    by (simp add: get_recent_def py_slice_to_one)
qed

lemma embedding_present_dict_set:
  "embedding_present (dict_set ''embedding'' v d) = (v \<noteq> JNull)"
  by (cases v) (simp_all add: embedding_present_def map_of_dict_set)

text \<open>
  Claim C8, as amended. For a record of the data model, when the file can be written
  and every file already in the corpus has an earlier modification time,
  \<^verbatim>\<open>get_recent(1)\<close> right after \<^verbatim>\<open>save\<close> returns exactly the record as persisted: the
  record passed, with its embedding set to the computed vector (to null when the
  embedding call failed) if a provider was available, and unchanged otherwise. For a
  record passed without an embedding, the embedding returned is present if and only if
  a provider was available and the embedding call succeeded.
\<close>

theorem save_then_get_recent:
  assumes "well_typed e" and "disk_write w = None"
    and "all_earlier (file_mtime w) (glob (files st))"
  shows "\<exists>r. get_recent (snd (save w st e)) 1 = Inr [JDict r] \<and>
             without_embedding r = without_embedding e \<and>
             map_of r ''embedding'' =
               (if provider_available w st
                then Some (case embed w (spec_search_text e) of
                             Inl x \<Rightarrow> JNull
                           | Inr v \<Rightarrow> JList (map JNum v))
                else map_of e ''embedding'') \<and>
             (map_of e ''embedding'' = None \<longrightarrow>
                embedding_present r =
                  (provider_available w st \<and> \<not> isl (embed w (spec_search_text e))))"
proof -
  let ?v = "case embed w (spec_search_text e) of Inl x \<Rightarrow> JNull | Inr v \<Rightarrow> JList (map JNum v)"
  let ?r = "if provider_available w st then dict_set ''embedding'' ?v e else e"
  let ?st = "snd (save w st e)"
  have "?st = ?st\<lparr>files := files ?st\<rparr>" by simp
  also have "files ?st =
      write_file (save_filename (now w)) (Some (file_mtime w), Holds (JDict ?r)) (files st)"
    by (rule save_typed(2)[OF assms(1,2)])
  finally have g1: "get_recent ?st 1 = Inr [JDict ?r]"
    using get_recent_after_write[OF glob_match_save_filename assms(3),
        where d1 = "now w" and st = ?st and v = "JDict ?r"]
    by simp
  have g2: "without_embedding ?r = without_embedding e"
    by (simp add: without_embedding_dict_set)
  have g3: "map_of ?r ''embedding'' =
      (if provider_available w st then Some ?v else map_of e ''embedding'')"
    by (simp add: map_of_dict_set)
  have g4: "map_of e ''embedding'' = None \<longrightarrow>
      embedding_present ?r =
        (provider_available w st \<and> \<not> isl (embed w (spec_search_text e)))"
  proof (cases "provider_available w st")
    case True
    then show ?thesis
      by (cases "embed w (spec_search_text e)") (simp_all add: embedding_present_dict_set)
  next
    case False
    then show ?thesis by (simp add: embedding_present_def)
  qed
  show ?thesis
  proof (intro exI[of _ ?r] conjI)
    show "get_recent ?st 1 = Inr [JDict ?r]" by (rule g1)
    show "without_embedding ?r = without_embedding e" by (rule g2)
    show "map_of ?r ''embedding'' =
      (if provider_available w st then Some ?v else map_of e ''embedding'')" by (rule g3)
    show "map_of e ''embedding'' = None \<longrightarrow>
      embedding_present ?r =
        (provider_available w st \<and> \<not> isl (embed w (spec_search_text e)))" by (rule g4)
  qed
qed

lemma all_earlier_small: "all_earlier 100 (glob (files small_storage))"
  by (simp add: glob_small all_earlier_def)

theorem save_then_get_recent_witness:
  "well_typed timeout_record \<and> disk_write world_online = None \<and>
   all_earlier (file_mtime world_online) (glob (files small_storage)) \<and>
   map_of timeout_record ''embedding'' = None \<and>
   provider_available world_online small_storage \<and>
   (\<exists>r. get_recent (snd (save world_online small_storage timeout_record)) 1 = Inr [JDict r] \<and>
        without_embedding r = without_embedding timeout_record \<and>
        map_of r ''embedding'' = Some (JList [JNum 4, JNum 3]) \<and>
        embedding_present r)"
proof -
  have a: "disk_write world_online = None" "file_mtime world_online = 100"
    "embed world_online (spec_search_text timeout_record) = Inr [4, 3]"
    by (simp_all add: world_online_def)
  have b: "all_earlier (file_mtime world_online) (glob (files small_storage))"
    by (simp add: a all_earlier_small)
  have c: "map_of timeout_record ''embedding'' = None"
    by (simp add: timeout_record_def)
  from save_then_get_recent[OF well_typed_timeout a(1) b]
  obtain r where "get_recent (snd (save world_online small_storage timeout_record)) 1 =
      Inr [JDict r]" "without_embedding r = without_embedding timeout_record"
    "map_of r ''embedding'' = Some (JList [JNum 4, JNum 3])" "embedding_present r"
    using a c online_facts(1)[of small_storage] by auto
  with well_typed_timeout a(1) b c online_facts(1)[of small_storage] show ?thesis by blast
qed

lemma get_recent_single:
  "glob_match name \<Longrightarrow>
   get_recent (st\<lparr>files := [(name, Some m, Holds v)]\<rparr>) 1 = Inr [v]"
  using get_recent_after_write[where name = name and m = m and fs = "[]" and st = st and v = v]
  by (simp add: all_earlier_def glob_def)

lemma get_recent_empty: "files st = [] \<Longrightarrow> get_recent st 1 = Inr []"
  by (simp add: get_recent_def glob_def py_slice_to_def)

lemma save_no_embedding:
  "files (snd (save world_no_embedding empty_storage timeout_record)) =
     [(''exp_20240101_120000.json'', Some 100,
       Holds (JDict (dict_set ''embedding'' JNull timeout_record)))]"
proof -
  have "disk_write world_no_embedding = None" "now world_no_embedding = noon"
    "file_mtime world_no_embedding = 100"
    "embed world_no_embedding (spec_search_text timeout_record) = Inl remote_down"
    by (simp_all add: world_no_embedding_def)
  then show ?thesis
    by (simp add: save_typed well_typed_timeout online_facts save_name_noon
        empty_storage_facts)
qed

lemma save_later:
  "files (snd (save world_offline later_storage timeout_record)) =
     [(''exp_20240101_130000.json'', Some 200, Holds (JDict parser_record)),
      (''exp_20240101_120000.json'', Some 100, Holds (JDict timeout_record))]"
  by (simp add: save_typed well_typed_timeout offline_facts save_name_noon)
     (simp add: later_storage_def)

lemma save_tie:
  "files (snd (save world_offline tie_storage timeout_record)) =
     [(''exp_20240101_115959.json'', Some 100, Holds (JDict parser_record)),
      (''exp_20240101_120000.json'', Some 100, Holds (JDict timeout_record))]"
  by (simp add: save_typed well_typed_timeout offline_facts save_name_noon)
     (simp add: tie_storage_def)

lemma save_dangling:
  "files (snd (save world_offline dangling_storage timeout_record)) =
     [(''exp_20240101_090000.json'', None, Unreadable),
      (''exp_20240101_120000.json'', Some 100, Holds (JDict timeout_record))]"
  by (simp add: save_typed well_typed_timeout offline_facts save_name_noon)
     (simp add: dangling_storage_def)

lemma save_disk_full:
  "fst (save world_disk_full empty_storage timeout_record) =
     Inl (Exc OSError ''No space left on device'')"
  "files (snd (save world_disk_full empty_storage timeout_record)) = []"
  using files_get_embedding_gen[of world_disk_full empty_storage]
  by (simp_all add: save_typed well_typed_timeout)
     (simp_all add: world_disk_full_def save_def Let_def split_beta empty_storage_facts
        split: sum.splits)

text \<open>
  Claim C8, as stated: after any save, \<^verbatim>\<open>get_recent(1)\<close> returns the record, with an
  embedding if and only if a provider was available. (1) With a provider and the
  embedding call failing, the record read back has a null embedding. (2) With a file in
  the corpus whose modification time is later, or the same, that file's record is
  returned; with an entry whose \<^verbatim>\<open>stat()\<close> fails, \<^verbatim>\<open>get_recent\<close> raises. (3) When
  the file cannot be written, \<^verbatim>\<open>save\<close> raises and nothing is returned. (4) Without a
  provider, a record that carries an embedding is returned with it. (5) With a provider,
  a record with a null pattern makes \<^verbatim>\<open>save\<close> raise and nothing is returned.
\<close>

theorem save_then_get_recent_fails:
  "provider_available world_no_embedding empty_storage \<and>
   get_recent (snd (save world_no_embedding empty_storage timeout_record)) 1 =
     Inr [JDict (dict_set ''embedding'' JNull timeout_record)] \<and>
   \<not> embedding_present (dict_set ''embedding'' JNull timeout_record) \<and>
   get_recent (snd (save world_offline later_storage timeout_record)) 1 =
     Inr [JDict parser_record] \<and>
   get_recent (snd (save world_offline tie_storage timeout_record)) 1 =
     Inr [JDict parser_record] \<and>
   get_recent (snd (save world_offline dangling_storage timeout_record)) 1 =
     Inl (Exc OSError ''No such file or directory'') \<and>
   isl (fst (save world_disk_full empty_storage timeout_record)) \<and>
   get_recent (snd (save world_disk_full empty_storage timeout_record)) 1 = Inr [] \<and>
   \<not> provider_available world_offline empty_storage \<and>
   get_recent (snd (save world_offline empty_storage preset_record)) 1 =
     Inr [JDict preset_record] \<and>
   embedding_present preset_record \<and>
   isl (fst (save world_online empty_storage null_pattern_record)) \<and>
   get_recent (snd (save world_online empty_storage null_pattern_record)) 1 = Inr []"
proof -
  have name: "glob_match ''exp_20240101_120000.json''"
    by (simp add: glob_match_def)
  have 1: "get_recent (snd (save world_no_embedding empty_storage timeout_record)) 1 =
      Inr [JDict (dict_set ''embedding'' JNull timeout_record)]"
    using get_recent_single[OF name,
        where st = "snd (save world_no_embedding empty_storage timeout_record)" and m = 100
          and v = "JDict (dict_set ''embedding'' JNull timeout_record)"]
    by (simp add: save_no_embedding[symmetric])
  have 2: "get_recent (snd (save world_offline later_storage timeout_record)) 1 =
      Inr [JDict parser_record]"
    by (simp add: get_recent_def save_later glob_def glob_match_def py_slice_to_def)
  have tie: "get_recent (snd (save world_offline tie_storage timeout_record)) 1 =
      Inr [JDict parser_record]"
    by (simp add: get_recent_def save_tie glob_def glob_match_def py_slice_to_def)
  have dangling: "get_recent (snd (save world_offline dangling_storage timeout_record)) 1 =
      Inl (Exc OSError ''No such file or directory'')"
    by (simp add: get_recent_def save_dangling glob_def glob_match_def)
  have 3: "get_recent (snd (save world_disk_full empty_storage timeout_record)) 1 = Inr []"
    by (rule get_recent_empty) (rule save_disk_full)
  have 4: "get_recent (snd (save world_offline empty_storage preset_record)) 1 =
      Inr [JDict preset_record]"
    using get_recent_single[OF name,
        where st = "snd (save world_offline empty_storage preset_record)" and m = 100
          and v = "JDict preset_record"]
    by (simp add: save_preset[symmetric])
  have 5: "get_recent (snd (save world_online empty_storage null_pattern_record)) 1 = Inr []"
    by (rule get_recent_empty) (rule save_null_pattern)
  from 1 2 tie dangling 3 4 5 show ?thesis
    by (simp add: online_facts offline_facts embedding_present_dict_set preset_present
        save_disk_full save_null_pattern)
qed


section \<open>Ending an episode\<close>

lemma config_error_text_not_saved:
  "sublist ''Your episode data was NOT saved'' (config_error_text x)"
proof -
  have "config_error_text x =
      (''Episode ended but extraction failed: '' @ exc_message x @ [newline, newline] @
       ''The episode was completed successfully, but experience extraction requires:'' @
       [newline] @
       ''- OPENROUTER_API_KEY set in your MCP server environment'' @ [newline, newline]) @
      ''Your episode data was NOT saved'' @
      ''. Please fix the configuration and try again.''"
    by (simp add: config_error_text_def)
  then show ?thesis by (simp only: sublist_appendI)
qed

lemma other_error_text_not_saved:
  "sublist ''Your episode data was NOT saved'' (other_error_text x)"
proof -
  have "other_error_text x =
      (''Episode ended but extraction failed: '' @ type_name (exc_class_of x) @ '': '' @
       exc_message x @ [newline, newline] @
       ''The episode was completed successfully, but experience extraction encountered an error.'' @
       [newline]) @
      ''Your episode data was NOT saved'' @ ''. See error details above.''"
    by (simp add: other_error_text_def)
  then show ?thesis by (simp only: sublist_appendI)
qed

lemma failure_text_not_saved:
  "sublist ''Your episode data was NOT saved'' (failure_text x)"
  by (simp add: failure_text_def config_error_text_not_saved other_error_text_not_saved)

lemma extract_experience_fails:
  "isl (extract_experience w k) =
     (\<not> truthy_key (api_key w) \<or>
      (case llm w k of
         Parsed v \<Rightarrow> False
       | Call_raises x \<Rightarrow> True
       | Empty_content \<Rightarrow> True
       | Not_json d \<Rightarrow> True))"
  by (simp add: extract_experience_def split: llm_outcome.splits)

lemma tracker_end_registered:
  "tr eid = Some ep \<Longrightarrow>
   tracker_end tr eid res s n =
     (Some (ep\<lparr>final_result := Some res, final_success := Some s, notes := n\<rparr>),
      tr(eid := None))"
  by (simp add: tracker_end_def)

lemma tracker_end_unknown: "tr eid = None \<Longrightarrow> tracker_end tr eid res s n = (None, tr)"
  by (simp add: tracker_end_def)

lemma end_episode_tracker:
  "srv_tracker (snd (end_episode w sv eid res succ n)) =
     snd (tracker_end (srv_tracker sv) eid res succ n)"
  by (simp add: end_episode_def Let_def split_beta
           split: prod.splits option.splits sum.splits json.splits)

lemma end_episode_unknown:
  "srv_tracker sv eid = None \<Longrightarrow> fst (end_episode w sv eid res succ n) = not_found_text eid"
  by (simp add: end_episode_def tracker_end_unknown)

lemma server0_ended:
  "tracker_end (srv_tracker server0) ''ep_20240101_120000_000001'' ''fixed'' True None =
     (Some (solved_episode\<lparr>final_result := Some ''fixed'', final_success := Some True,
                            notes := None\<rparr>),
      (srv_tracker server0)(''ep_20240101_120000_000001'' := None))"
  by (simp add: tracker_end_registered server0_def)

lemma search_text_built:
  "search_text (build_experience episode res [(''pattern'', JStr p),
      (''keywords'', JList [JStr k1, JStr k2]), (''insight'', JStr i)]) =
     Inr (task episode @ '' '' @ p @ '' '' @ i @ '' '' @ k1 @ '' '' @ k2)"
  by (simp add: search_text_def build_experience_def dict_get_def)

lemma end_episode_disk_full:
  "fst (end_episode world_disk_full server0 ''ep_20240101_120000_000001'' ''fixed'' True None) =
     failure_text (Exc OSError ''No space left on device'')"
  by (simp add: end_episode_def server0_ended)
     (simp add: world_disk_full_def world_online_def extract_experience_def truthy_key_def
        answer_def save_def get_embedding_gen_def Let_def attach_embedding_def
        search_text_built server0_def empty_storage_def)

text \<open>
  The server passes the parsed answer on as it is: a null pattern reaches \<^verbatim>\<open>save\<close>,
  which raises in the embedding step, and the experience is not stored.
\<close>

lemma end_episode_null_pattern:
  "fst (end_episode world_null_answer server0 ''ep_20240101_120000_000001'' ''fixed'' True None) =
     failure_text (Exc TypeError ''sequence item: expected str instance'') \<and>
   files (srv_storage (snd (end_episode world_null_answer server0
                              ''ep_20240101_120000_000001'' ''fixed'' True None))) = []"
  by (simp add: end_episode_def server0_ended)
     (simp add: world_null_answer_def world_online_def extract_experience_def truthy_key_def
        null_answer_def save_def get_embedding_gen_def Let_def attach_embedding_def
        search_text_def build_experience_def dict_get_def server0_def empty_storage_def)

text \<open>
  Claim C7. For an episode ended with success, when extraction fails (no credential, the
  call failing, an empty or unparsable answer), nothing is written to the store and the
  text returned to the caller says that the episode data was not saved.
\<close>

theorem end_episode_extraction_fails:
  assumes "tracker_end (srv_tracker sv) eid res True n = (Some episode, tr)"
    and "extract_experience w (to_kimi_input episode) = Inl x"
  shows "end_episode w sv eid res True n = (failure_text x, sv\<lparr>srv_tracker := tr\<rparr>) \<and>
         srv_storage (snd (end_episode w sv eid res True n)) = srv_storage sv \<and>
         sublist ''Your episode data was NOT saved'' (fst (end_episode w sv eid res True n))"
  using assms by (simp add: end_episode_def failure_text_not_saved)

theorem end_episode_extraction_fails_witness:
  "tracker_end (srv_tracker server0) ''ep_20240101_120000_000001'' ''fixed'' True None =
     (Some (solved_episode\<lparr>final_result := Some ''fixed'', final_success := Some True,
                            notes := None\<rparr>),
      (srv_tracker server0)(''ep_20240101_120000_000001'' := None)) \<and>
   isl (extract_experience world_offline
          (to_kimi_input (solved_episode\<lparr>final_result := Some ''fixed'',
                                           final_success := Some True, notes := None\<rparr>))) \<and>
   srv_storage (snd (end_episode world_offline server0 ''ep_20240101_120000_000001''
                       ''fixed'' True None)) = empty_storage \<and>
   sublist ''Your episode data was NOT saved''
     (fst (end_episode world_offline server0 ''ep_20240101_120000_000001'' ''fixed'' True None)) \<and>
   isl (extract_experience (world_offline\<lparr>api_key := Some ''sk-test''\<rparr>)
          (to_kimi_input (solved_episode\<lparr>final_result := Some ''fixed'',
                                           final_success := Some True, notes := None\<rparr>))) \<and>
   srv_storage (snd (end_episode (world_offline\<lparr>api_key := Some ''sk-test''\<rparr>) server0
                       ''ep_20240101_120000_000001'' ''fixed'' True None)) = empty_storage"
proof -
  let ?ended = "solved_episode\<lparr>final_result := Some ''fixed'', final_success := Some True,
                                notes := None\<rparr>"
  note ended = server0_ended
  have no_key: "extract_experience world_offline (to_kimi_input ?ended) =
      Inl (Exc ValueError
            (''OPENROUTER_API_KEY not set in environment. '' @
             ''Please set it in your MCP config or environment.''))"
    by (simp add: extract_experience_def world_offline_def truthy_key_def)
  have call: "extract_experience (world_offline\<lparr>api_key := Some ''sk-test''\<rparr>)
      (to_kimi_input ?ended) = Inl unbound_json"
    by (simp add: extract_experience_def world_offline_def truthy_key_def)
  have st: "srv_storage server0 = empty_storage"
    by (simp add: server0_def)
  note a = end_episode_extraction_fails[OF ended no_key]
  note b = end_episode_extraction_fails[OF ended call]
  have 1: "isl (extract_experience world_offline (to_kimi_input ?ended))"
    by (simp add: no_key)
  have 2: "isl (extract_experience (world_offline\<lparr>api_key := Some ''sk-test''\<rparr>)
      (to_kimi_input ?ended))"
    by (simp add: call)
  from a[THEN conjunct2, THEN conjunct1] st
  have 3: "srv_storage (snd (end_episode world_offline server0
      ''ep_20240101_120000_000001'' ''fixed'' True None)) = empty_storage"
    by simp
  from b[THEN conjunct2, THEN conjunct1] st
  have 4: "srv_storage (snd (end_episode (world_offline\<lparr>api_key := Some ''sk-test''\<rparr>)
      server0 ''ep_20240101_120000_000001'' ''fixed'' True None)) = empty_storage"
    by simp
  from a have 5: "sublist ''Your episode data was NOT saved''
     (fst (end_episode world_offline server0 ''ep_20240101_120000_000001'' ''fixed'' True None))"
    by (rule conjunct2[THEN conjunct2])
  from ended 1 3 5 2 4 show ?thesis by (intro conjI)
qed

text \<open>
  Claim C10. Ending a registered episode with success removes it from the registry
  whatever extraction and saving then do (the registry afterwards does not depend on
  their outcome and is never restored): a later lookup of the id finds nothing, a later
  \<^verbatim>\<open>end\<close> in the tracker returns nothing, and a later \<^verbatim>\<open>end_episode\<close> answers that
  the episode was not found.
\<close>

theorem end_episode_unregisters:
  assumes "srv_tracker sv eid = Some ep"
  shows "srv_tracker (snd (end_episode w sv eid res True n)) = (srv_tracker sv)(eid := None) \<and>
         tracker_get (srv_tracker (snd (end_episode w sv eid res True n))) eid = None \<and>
         fst (tracker_end (srv_tracker (snd (end_episode w sv eid res True n))) eid res' s' n') = None \<and>
         fst (end_episode w' (snd (end_episode w sv eid res True n)) eid res' s' n') =
           not_found_text eid"
proof -
  let ?sv = "snd (end_episode w sv eid res True n)"
  from assms have tr: "srv_tracker ?sv = (srv_tracker sv)(eid := None)"
    by (simp add: end_episode_tracker tracker_end_registered)
  then have none: "srv_tracker ?sv eid = None" by simp
  from tr none show ?thesis
    by (simp add: tracker_get_def tracker_end_unknown end_episode_unknown)
qed

theorem end_episode_unregisters_witness:
  "srv_tracker server0 ''ep_20240101_120000_000001'' = Some solved_episode \<and>
   isl (extract_experience world_offline (to_kimi_input solved_episode)) \<and>
   tracker_get
     (srv_tracker (snd (end_episode world_offline server0 ''ep_20240101_120000_000001''
                          ''fixed'' True None)))
     ''ep_20240101_120000_000001'' = None \<and>
   fst (end_episode world_disk_full server0 ''ep_20240101_120000_000001'' ''fixed'' True None) =
     failure_text (Exc OSError ''No space left on device'') \<and>
   fst (end_episode world_online
          (snd (end_episode world_disk_full server0 ''ep_20240101_120000_000001''
                  ''fixed'' True None))
          ''ep_20240101_120000_000001'' ''fixed'' True None) =
     not_found_text ''ep_20240101_120000_000001''"
proof -
  have reg: "srv_tracker server0 ''ep_20240101_120000_000001'' = Some solved_episode"
    by (simp add: server0_def)
  have fails: "isl (extract_experience world_offline (to_kimi_input solved_episode))"
    by (simp add: extract_experience_def world_offline_def truthy_key_def)
  from end_episode_unregisters[OF reg, where w = world_offline and res = "''fixed''" and n = None]
  have 1: "tracker_get
     (srv_tracker (snd (end_episode world_offline server0 ''ep_20240101_120000_000001''
                          ''fixed'' True None)))
     ''ep_20240101_120000_000001'' = None"
    by (rule conjunct2[THEN conjunct1])
  from end_episode_unregisters[OF reg, where w = world_disk_full and res = "''fixed''"
      and n = None and w' = world_online and res' = "''fixed''" and s' = True and n' = None]
  have 2: "fst (end_episode world_online
          (snd (end_episode world_disk_full server0 ''ep_20240101_120000_000001''
                  ''fixed'' True None))
          ''ep_20240101_120000_000001'' ''fixed'' True None) =
     not_found_text ''ep_20240101_120000_000001''"
    by (rule conjunct2[THEN conjunct2, THEN conjunct2])
  from reg fails 1 end_episode_disk_full 2 show ?thesis by (intro conjI)
qed

end
